theory Spec2Isabelle
  imports Main "HOL-Library.Word"
begin

section \<open>The catalog of the storage engine (src/catalog/catalog.cpp)\<close>

text \<open>
  The catalog class keeps an identifier counter, two registry maps and two pointers to
  global tables. Its methods mutate these members and the table objects they point to,
  throw C++ exceptions (\<^verbatim>\<open>unordered_map::at\<close>, \<^verbatim>\<open>NOT_IMPLEMENTED_EXCEPTION\<close>) and
  dereference pointers. The model is a state record threaded through every method; an
  exception or an invalid dereference is an \<open>error\<close> value that is returned together
  with the state reached when it happened, since what was mutated before a throw stays
  mutated.
\<close>

subsection \<open>Identifiers, types and values\<close>

text \<open>
  All identifier kinds (\<^verbatim>\<open>db_oid_t\<close>, \<^verbatim>\<open>table_oid_t\<close>, \<^verbatim>\<open>col_oid_t\<close>,
  \<^verbatim>\<open>namespace_oid_t\<close>, \<^verbatim>\<open>tablespace_oid_t\<close>, \<^verbatim>\<open>type_oid_t\<close>) wrap the
  \<^verbatim>\<open>uint32_t\<close> that \<^verbatim>\<open>GetNextOid\<close> returns; the source unwraps them with \<^verbatim>\<open>!\<close>.
  An object address is the 64-bit integer that \<^verbatim>\<open>reinterpret_cast<uint64_t>\<close> yields.
\<close>

type_synonym oid_t = "32 word"
type_synonym db_oid_t = oid_t
type_synonym table_oid_t = oid_t
type_synonym col_oid_t = oid_t
type_synonym addr = "64 word"

text \<open>The type identifiers the source names (the enum's declaration is in the type system).\<close>

datatype TypeId =
  BOOLEAN | TINYINT | SMALLINT | INTEGER | BIGINT | DECIMAL | TIMESTAMP | DATE | VARCHAR

text \<open>
  The values that \<^verbatim>\<open>type::ValueFactory\<close> builds in this file: \<^verbatim>\<open>GetBooleanValue\<close>,
  \<^verbatim>\<open>GetIntegerValue\<close> (a 32-bit integer), \<^verbatim>\<open>GetVarcharValue\<close>, \<^verbatim>\<open>GetNullValue\<close>,
  and the 64-bit integer in which a class row carries an object address.
\<close>

datatype Value =
  BooleanValue bool
  | IntegerValue "32 word"
  | BigIntValue "64 word"
  | VarcharValue string
  | NullValue TypeId

text \<open>\<^verbatim>\<open>SchemaCols\<close>: the entries of the static column tables of the handles.\<close>

record SchemaCols =
  col_name :: string
  type_id :: TypeId

datatype error =
  OutOfRange  \<comment> \<open>\<^verbatim>\<open>std::out_of_range\<close>, thrown by \<^verbatim>\<open>unordered_map::at\<close>\<close>
  | NotImplemented string  \<comment> \<open>\<^verbatim>\<open>NOT_IMPLEMENTED_EXCEPTION\<close>\<close>
  | InvalidDereference  \<comment> \<open>a null or dangling pointer is dereferenced: the process faults\<close>
  | InvalidDelete  \<comment> \<open>\<^verbatim>\<open>delete\<close> of an address that holds no live object\<close>
  | BadCell  \<comment> \<open>a row cell read at a type it does not hold\<close>

subsection \<open>The default-value filler\<close>

text \<open>
  \<^verbatim>\<open>Catalog::SetUnusedColumns(vec, cols)\<close> appends to the caller's vector in place and
  throws from inside the loop, so the model returns the vector as it stands together
  with the outcome.
\<close>

fun SetUnusedColumns :: "Value list \<Rightarrow> SchemaCols list \<Rightarrow> (error + unit) \<times> Value list" where
  "SetUnusedColumns vec [] = (Inr (), vec)"
| "SetUnusedColumns vec (col # cols) =
     (case type_id col of
        BOOLEAN \<Rightarrow> SetUnusedColumns (vec @ [BooleanValue False]) cols
      | INTEGER \<Rightarrow> SetUnusedColumns (vec @ [IntegerValue 0]) cols
      | VARCHAR \<Rightarrow> SetUnusedColumns (vec @ [NullValue VARCHAR]) cols
      | _ \<Rightarrow> (Inl (NotImplemented ''unsupported type in SetUnusedSchemaColumns (by vec)''), vec))"

text \<open>
  The defaults as the specification words them: false for boolean, 0 for integer, null
  for variable-length text, and no default for anything else.
\<close>

fun spec_default_value :: "TypeId \<Rightarrow> Value option" where
  "spec_default_value BOOLEAN = Some (BooleanValue False)"
| "spec_default_value INTEGER = Some (IntegerValue 0)"
| "spec_default_value VARCHAR = Some (NullValue VARCHAR)"
| "spec_default_value _ = None"

definition has_default :: "SchemaCols \<Rightarrow> bool" where
  "has_default col = (spec_default_value (type_id col) \<noteq> None)"

definition default_of :: "SchemaCols \<Rightarrow> Value" where
  "default_of col = the (spec_default_value (type_id col))"

subsection \<open>Table objects and the process state\<close>

text \<open>
  \<^verbatim>\<open>catalog::SqlTableRW\<close> is the storage collaborator's table object. Modelled from the
  spec: its contract is \<open>define_column(name, type, nullable, column_id)\<close>,
  \<open>create_storage()\<close>, \<open>insert_row(txn, ordered_values)\<close>, \<open>scan(txn, projection)\<close> and
  \<open>schema()\<close>; the class itself is not among the sources. A table object records its
  identifier, the columns defined so far, whether \<^verbatim>\<open>Create()\<close> has run, and its rows in
  insertion order. Transaction contexts are handed through to the collaborator and
  decide nothing in the catalog, so the model leaves visibility out: every inserted row
  is seen by every later scan.
\<close>

record Column =
  c_name :: string
  c_type :: TypeId
  c_nullable :: bool
  c_oid :: col_oid_t

record SqlTableRW =
  t_oid :: table_oid_t
  t_columns :: "Column list"
  t_created :: bool
  t_rows :: "Value list list"

text \<open>
  The state: the members of \<^verbatim>\<open>Catalog\<close> (\<^verbatim>\<open>oid_\<close>, \<^verbatim>\<open>map_\<close>, \<^verbatim>\<open>name_map_\<close>,
  \<^verbatim>\<open>pg_database_\<close>, \<^verbatim>\<open>pg_tablespace_\<close>), the store of live table objects by address
  (a \<^verbatim>\<open>shared_ptr<SqlTableRW>\<close> is the address; 0 is the null pointer), the addresses
  handed to \<^verbatim>\<open>delete\<close> so far, and what the transaction manager was asked to do.
\<close>

record state =
  oid_' :: oid_t
  map_' :: "db_oid_t \<rightharpoonup> (table_oid_t \<rightharpoonup> addr)"
  name_map_' :: "db_oid_t \<rightharpoonup> (string \<rightharpoonup> table_oid_t)"
  pg_database_' :: addr
  pg_tablespace_' :: addr
  heap :: "addr \<rightharpoonup> SqlTableRW"
  next_addr :: addr
  deleted :: "addr list"
  begun :: nat
  committed :: "nat list"

text \<open>
  The constants and static tables that the file uses and other files declare are
  parameters: \<^verbatim>\<open>START_OID\<close>, \<^verbatim>\<open>DEFAULT_DATABASE_OID\<close>, the column tables of the
  handles (\<^verbatim>\<open>schema_cols_\<close> and \<^verbatim>\<open>unused_schema_cols_\<close>), \<^verbatim>\<open>pg_tablespace_unused_cols_\<close>,
  \<^verbatim>\<open>pg_type_unused_cols\<close> and \<^verbatim>\<open>type::TypeUtil::GetTypeSize\<close>.
\<close>

record CatalogDefs =
  START_OID :: oid_t
  DEFAULT_DATABASE_OID :: db_oid_t
  DatabaseHandle_schema_cols :: "SchemaCols list"
  DatabaseHandle_unused_schema_cols :: "SchemaCols list"
  pg_tablespace_unused_cols :: "SchemaCols list"
  pg_type_unused_cols :: "SchemaCols list"
  NamespaceHandle_schema_cols :: "SchemaCols list"
  NamespaceHandle_unused_schema_cols :: "SchemaCols list"
  ClassHandle_schema_cols :: "SchemaCols list"
  ClassHandle_unused_schema_cols :: "SchemaCols list"
  AttrDefHandle_schema_cols :: "SchemaCols list"
  AttrDefHandle_unused_schema_cols :: "SchemaCols list"
  GetTypeSize :: "TypeId \<Rightarrow> 32 word"

subsection \<open>Sequencing with exceptions\<close>

type_synonym 'a M = "state \<Rightarrow> (error + 'a) \<times> state"

definition ret :: "'a \<Rightarrow> 'a M" where
  "ret x s = (Inr x, s)"

definition throw :: "error \<Rightarrow> 'a M" where
  "throw e s = (Inl e, s)"

definition bindM :: "'a M \<Rightarrow> ('a \<Rightarrow> 'b M) \<Rightarrow> 'b M" where
  "bindM m f s = (case m s of (Inl e, s1) \<Rightarrow> (Inl e, s1) | (Inr x, s1) \<Rightarrow> f x s1)"

definition thenM :: "unit M \<Rightarrow> 'b M \<Rightarrow> 'b M" where
  "thenM m k = bindM m (\<lambda>_. k)"

definition gets :: "(state \<Rightarrow> 'a) \<Rightarrow> 'a M" where
  "gets f s = (Inr (f s), s)"

definition modify :: "(state \<Rightarrow> state) \<Rightarrow> unit M" where
  "modify f s = (Inr (), f s)"

definition lift :: "(state \<Rightarrow> error + 'a) \<Rightarrow> 'a M" where
  "lift f s = (f s, s)"

fun forM :: "'a list \<Rightarrow> ('a \<Rightarrow> unit M) \<Rightarrow> unit M" where
  "forM [] f = ret ()"
| "forM (x # xs) f = thenM (f x) (forM xs f)"

subsection \<open>The identifier allocator\<close>

text \<open>\<^verbatim>\<open>uint32_t Catalog::GetNextOid() { return oid_++; }\<close>: the counter is 32 bits wide.\<close>

definition GetNextOid :: "oid_t M" where
  "GetNextOid s = (Inr (oid_' s), s\<lparr>oid_' := oid_' s + 1\<rparr>)"

text \<open>\<open>n\<close> sequential calls: the returned values in call order.\<close>

fun GetNextOid_calls :: "nat \<Rightarrow> state \<Rightarrow> oid_t list" where
  "GetNextOid_calls 0 s = []"
| "GetNextOid_calls (Suc n) s =
     (case GetNextOid s of
        (Inr x, s1) \<Rightarrow> x # GetNextOid_calls n s1
      | (Inl e, s1) \<Rightarrow> [])"

text \<open>
  The constructor's initialiser list: the counter starts at \<^verbatim>\<open>START_OID\<close>, the maps are
  empty and the two table pointers are null. No object is live.
\<close>

definition Catalog_init :: "CatalogDefs \<Rightarrow> state" where
  "Catalog_init defs =
     \<lparr>oid_' = START_OID defs, map_' = Map.empty, name_map_' = Map.empty,
      pg_database_' = 0, pg_tablespace_' = 0,
      heap = Map.empty, next_addr = 1, deleted = [], begun = 0, committed = []\<rparr>"

subsection \<open>Table objects\<close>

text \<open>
  \<^verbatim>\<open>std::make_shared<catalog::SqlTableRW>(oid)\<close>: a new object at an address that holds
  no live object. The model hands out addresses from a counter that starts above the
  null pointer.
\<close>

definition make_shared_SqlTableRW :: "table_oid_t \<Rightarrow> addr M" where
  "make_shared_SqlTableRW oid s =
     (Inr (next_addr s),
      s\<lparr>heap := (heap s)(next_addr s \<mapsto>
             \<lparr>t_oid = oid, t_columns = [], t_created = False, t_rows = []\<rparr>),
        next_addr := next_addr s + 1\<rparr>)"

definition deref :: "addr \<Rightarrow> SqlTableRW M" where
  "deref p s = (case heap s p of None \<Rightarrow> (Inl InvalidDereference, s) | Some t \<Rightarrow> (Inr t, s))"

definition DefineColumn :: "addr \<Rightarrow> string \<Rightarrow> TypeId \<Rightarrow> bool \<Rightarrow> col_oid_t \<Rightarrow> unit M" where
  "DefineColumn p name ty nullable oid s =
     (case heap s p of
        None \<Rightarrow> (Inl InvalidDereference, s)
      | Some t \<Rightarrow>
          (Inr (), s\<lparr>heap := (heap s)(p \<mapsto> t\<lparr>t_columns := t_columns t @
             [\<lparr>c_name = name, c_type = ty, c_nullable = nullable, c_oid = oid\<rparr>]\<rparr>)\<rparr>))"

definition Create :: "addr \<Rightarrow> unit M" where
  "Create p s =
     (case heap s p of
        None \<Rightarrow> (Inl InvalidDereference, s)
      | Some t \<Rightarrow> (Inr (), s\<lparr>heap := (heap s)(p \<mapsto> t\<lparr>t_created := True\<rparr>)\<rparr>))"

text \<open>Rows go into the storage that \<^verbatim>\<open>Create()\<close> built; before it there is none.\<close>

definition InsertRow :: "addr \<Rightarrow> Value list \<Rightarrow> unit M" where
  "InsertRow p row s =
     (case heap s p of
        None \<Rightarrow> (Inl InvalidDereference, s)
      | Some t \<Rightarrow>
          if t_created t then (Inr (), s\<lparr>heap := (heap s)(p \<mapsto> t\<lparr>t_rows := t_rows t @ [row]\<rparr>)\<rparr>)
          else (Inl InvalidDereference, s))"

definition Oid :: "addr \<Rightarrow> table_oid_t M" where
  "Oid p = bindM (deref p) (\<lambda>t. ret (t_oid t))"

subsection \<open>Registry lookups\<close>

text \<open>
  \<^verbatim>\<open>GetDatabaseCatalog(db_oid, table_oid)\<close> is \<^verbatim>\<open>map_.at(db_oid).at(table_oid)\<close> and the
  overload by name is \<^verbatim>\<open>GetDatabaseCatalog(db_oid, name_map_.at(db_oid).at(table_name))\<close>.
  \<^verbatim>\<open>at\<close> throws \<^verbatim>\<open>std::out_of_range\<close> on a missing key and never inserts.
\<close>

definition at :: "('k \<rightharpoonup> 'v) \<Rightarrow> 'k \<Rightarrow> error + 'v" where
  "at m k = (case m k of None \<Rightarrow> Inl OutOfRange | Some v \<Rightarrow> Inr v)"

definition GetDatabaseCatalog :: "state \<Rightarrow> db_oid_t \<Rightarrow> table_oid_t \<Rightarrow> error + addr" where
  "GetDatabaseCatalog s db_oid table_oid =
     (case at (map_' s) db_oid of
        Inl e \<Rightarrow> Inl e
      | Inr tables \<Rightarrow> at tables table_oid)"

definition GetDatabaseCatalog_name :: "state \<Rightarrow> db_oid_t \<Rightarrow> string \<Rightarrow> error + addr" where
  "GetDatabaseCatalog_name s db_oid table_name =
     (case at (name_map_' s) db_oid of
        Inl e \<Rightarrow> Inl e
      | Inr names \<Rightarrow>
          (case at names table_name of
             Inl e \<Rightarrow> Inl e
           | Inr table_oid \<Rightarrow> GetDatabaseCatalog s db_oid table_oid))"

subsection \<open>The database handle\<close>

text \<open>
  Modelled from the spec: \<^verbatim>\<open>DatabaseHandle\<close> is not among the sources. Its
  \<open>get_entry(txn, key)\<close> "performs a transactional point lookup (scan + predicate match)"
  and yields an optional entry (the sibling \<^verbatim>\<open>NamespaceHandle\<close> documents the null
  pointer for a name that does not exist); \<open>delete_entry(txn, entry)\<close> "removes the
  underlying row". A row of \<^verbatim>\<open>pg_database\<close>, \<^verbatim>\<open>pg_tablespace\<close> and \<^verbatim>\<open>pg_namespace\<close>
  starts with its identifier and its name. An entry remembers the identifier and the
  position of its row.
\<close>

record Entry =
  e_oid :: oid_t
  e_slot :: nat

fun names_row :: "string \<Rightarrow> Value list \<Rightarrow> bool" where
  "names_row name (IntegerValue oid # VarcharValue n # rest) = (n = name)"
| "names_row name row = False"

fun row_oid :: "Value list \<Rightarrow> oid_t" where
  "row_oid (IntegerValue oid # rest) = oid"
| "row_oid row = 0"

fun scan_for :: "string \<Rightarrow> nat \<Rightarrow> Value list list \<Rightarrow> Entry option" where
  "scan_for name i [] = None"
| "scan_for name i (row # rs) =
     (if names_row name row then Some \<lparr>e_oid = row_oid row, e_slot = i\<rparr>
      else scan_for name (Suc i) rs)"

definition GetEntry :: "addr \<Rightarrow> string \<Rightarrow> Entry option M" where
  "GetEntry table name = bindM (deref table) (\<lambda>t. ret (scan_for name 0 (t_rows t)))"

definition GetDatabaseHandle :: "state \<Rightarrow> addr" where
  "GetDatabaseHandle s = pg_database_' s"

definition GetDatabaseEntry :: "addr \<Rightarrow> string \<Rightarrow> Entry option M" where
  "GetDatabaseEntry db_handle name = GetEntry db_handle name"

definition DeleteEntry :: "addr \<Rightarrow> Entry \<Rightarrow> unit M" where
  "DeleteEntry db_handle e s =
     (case heap s db_handle of
        None \<Rightarrow> (Inl InvalidDereference, s)
      | Some t \<Rightarrow>
          (Inr (), s\<lparr>heap := (heap s)(db_handle \<mapsto>
             t\<lparr>t_rows := take (e_slot e) (t_rows t) @ drop (Suc (e_slot e)) (t_rows t)\<rparr>)\<rparr>))"

subsection \<open>Creating and deleting a database\<close>

text \<open>
  A call of \<^verbatim>\<open>SetUnusedColumns\<close> on a local row: an exception unwinds the caller and the
  local vector is gone.
\<close>

definition filled :: "Value list \<Rightarrow> SchemaCols list \<Rightarrow> Value list M" where
  "filled vec cols =
     (case SetUnusedColumns vec cols of
        (Inl e, v) \<Rightarrow> throw e
      | (Inr u, v) \<Rightarrow> ret v)"

text \<open>
  Shared ownership. The tables of the registry are held through \<^verbatim>\<open>shared_ptr\<close>: by the
  members \<^verbatim>\<open>pg_database_\<close> and \<^verbatim>\<open>pg_tablespace_\<close> and by the table maps in \<^verbatim>\<open>map_\<close>.
  When a table map is destroyed, because \<^verbatim>\<open>map_[oid]\<close> is assigned another map or
  \<^verbatim>\<open>map_.erase(oid)\<close> removes it, the pointers in it are released, and a table that
  neither a member nor a remaining table map holds is destroyed with it. A relation that
  only the integer in a \<^verbatim>\<open>pg_class\<close> row refers to is held by no \<^verbatim>\<open>shared_ptr\<close>.
\<close>

definition owned :: "state \<Rightarrow> addr \<Rightarrow> bool" where
  "owned s p \<longleftrightarrow>
     p = pg_database_' s \<or> p = pg_tablespace_' s \<or> (\<exists>tables \<in> ran (map_' s). p \<in> ran tables)"

definition released :: "(table_oid_t \<rightharpoonup> addr) \<Rightarrow> state \<Rightarrow> state" where
  "released tables s =
     s\<lparr>heap := (\<lambda>p. if p \<in> ran tables \<and> \<not> owned s p then None else heap s p)\<rparr>"

text \<open>
  \<^verbatim>\<open>map_[oid] = tables\<close>: the subscript operator inserts an empty table map for a missing
  key; the assignment then replaces the table map that is there and destroys it.
\<close>

definition map_put :: "db_oid_t \<Rightarrow> (table_oid_t \<rightharpoonup> addr) \<Rightarrow> unit M" where
  "map_put oid tables =
     modify (\<lambda>s. released (case map_' s oid of None \<Rightarrow> Map.empty | Some old \<Rightarrow> old)
                   (s\<lparr>map_' := (map_' s)(oid \<mapsto> tables)\<rparr>))"

text \<open>\<^verbatim>\<open>map_.erase(oid)\<close>: the table map of the key, if there is one, is destroyed.\<close>

definition map_erase :: "db_oid_t \<Rightarrow> unit M" where
  "map_erase oid =
     modify (\<lambda>s. released (case map_' s oid of None \<Rightarrow> Map.empty | Some old \<Rightarrow> old)
                   (s\<lparr>map_' := (map_' s)(oid := None)\<rparr>))"

text \<open>
  \<^verbatim>\<open>AddEntryToPGDatabase\<close>: the row is the identifier, the name and the defaults of the
  unused columns; then \<^verbatim>\<open>map_[oid]\<close> is assigned an empty table map. \<^verbatim>\<open>name_map_\<close> is
  not touched.
\<close>

definition AddEntryToPGDatabase :: "CatalogDefs \<Rightarrow> db_oid_t \<Rightarrow> string \<Rightarrow> unit M" where
  "AddEntryToPGDatabase defs oid name =
     bindM (filled [IntegerValue oid, VarcharValue name]
              (DatabaseHandle_unused_schema_cols defs)) (\<lambda>entry.
     bindM (gets pg_database_') (\<lambda>pg_database.
     thenM (InsertRow pg_database entry)
       (map_put oid Map.empty)))"

text \<open>\<^verbatim>\<open>void Catalog::CreateDatabase(txn, name)\<close>: the new identifier is not returned.\<close>

definition CreateDatabase :: "CatalogDefs \<Rightarrow> string \<Rightarrow> unit M" where
  "CreateDatabase defs name =
     bindM GetNextOid (\<lambda>new_db_oid. AddEntryToPGDatabase defs new_db_oid name)"

text \<open>
  \<^verbatim>\<open>DeleteDatabase\<close> calls \<^verbatim>\<open>db_entry->GetDatabaseOid()\<close> on whatever
  \<^verbatim>\<open>GetDatabaseEntry\<close> returned, without a test for the null pointer. Then the row is
  deleted, \<^verbatim>\<open>map_.erase(oid)\<close> destroys the table map of the database and
  \<^verbatim>\<open>name_map_.erase(oid)\<close> its name map.
\<close>

definition DeleteDatabase :: "string \<Rightarrow> unit M" where
  "DeleteDatabase db_name =
     bindM (gets GetDatabaseHandle) (\<lambda>db_handle.
     bindM (GetDatabaseEntry db_handle db_name) (\<lambda>db_entry.
       case db_entry of
         None \<Rightarrow> throw InvalidDereference
       | Some e \<Rightarrow>
           (let oid = e_oid e in
            thenM (DeleteEntry db_handle e) (
            thenM (map_erase oid)
              (modify (\<lambda>s. s\<lparr>name_map_' := (name_map_' s)(oid := None)\<rparr>))))))"

text \<open>
  The database identifiers in use: those in the rows of \<^verbatim>\<open>pg_database\<close> and the keys of
  the two registry maps. The allocator hands out the counter value, so an identifier it
  returns is fresh as long as every identifier in use is below the counter.
\<close>

definition database_oids :: "state \<Rightarrow> db_oid_t set" where
  "database_oids s =
     (case heap s (pg_database_' s) of
        None \<Rightarrow> {}
      | Some t \<Rightarrow> row_oid ` set (t_rows t))"

definition oids_in_use :: "state \<Rightarrow> db_oid_t set" where
  "oids_in_use s = database_oids s \<union> dom (map_' s) \<union> dom (name_map_' s)"

definition oids_below :: "state \<Rightarrow> bool" where
  "oids_below s \<longleftrightarrow> (\<forall>x \<in> oids_in_use s. x < oid_' s)"

subsection \<open>The subscript operator of the registry maps\<close>

text \<open>
  \<^verbatim>\<open>map_[db_oid][table_oid] = p\<close> and \<^verbatim>\<open>name_map_[db_oid][name] = oid\<close>: the subscript
  operator of \<^verbatim>\<open>unordered_map\<close> inserts a default entry for a missing key. Read as a
  value, a missing name yields the default identifier 0 and a missing table the null
  pointer, and the entry stays inserted.
\<close>

definition map_assign :: "db_oid_t \<Rightarrow> table_oid_t \<Rightarrow> addr \<Rightarrow> unit M" where
  "map_assign db_oid table_oid p =
     modify (\<lambda>s. s\<lparr>map_' := (map_' s)(db_oid \<mapsto>
       (case map_' s db_oid of None \<Rightarrow> Map.empty | Some tables \<Rightarrow> tables)(table_oid \<mapsto> p))\<rparr>)"

definition name_map_assign :: "db_oid_t \<Rightarrow> string \<Rightarrow> table_oid_t \<Rightarrow> unit M" where
  "name_map_assign db_oid name table_oid =
     modify (\<lambda>s. s\<lparr>name_map_' := (name_map_' s)(db_oid \<mapsto>
       (case name_map_' s db_oid of None \<Rightarrow> Map.empty | Some names \<Rightarrow> names)(name \<mapsto> table_oid))\<rparr>)"

definition name_map_index :: "db_oid_t \<Rightarrow> string \<Rightarrow> table_oid_t M" where
  "name_map_index db_oid name s =
     (case name_map_' s db_oid of
        None \<Rightarrow> (Inr 0, s\<lparr>name_map_' := (name_map_' s)(db_oid \<mapsto> [name \<mapsto> 0])\<rparr>)
      | Some names \<Rightarrow>
          (case names name of
             None \<Rightarrow> (Inr 0, s\<lparr>name_map_' := (name_map_' s)(db_oid \<mapsto> names(name \<mapsto> 0))\<rparr>)
           | Some table_oid \<Rightarrow> (Inr table_oid, s)))"

definition map_index :: "db_oid_t \<Rightarrow> table_oid_t \<Rightarrow> addr M" where
  "map_index db_oid table_oid s =
     (case map_' s db_oid of
        None \<Rightarrow> (Inr 0, s\<lparr>map_' := (map_' s)(db_oid \<mapsto> [table_oid \<mapsto> 0])\<rparr>)
      | Some tables \<Rightarrow>
          (case tables table_oid of
             None \<Rightarrow> (Inr 0, s\<lparr>map_' := (map_' s)(db_oid \<mapsto> tables(table_oid \<mapsto> 0))\<rparr>)
           | Some p \<Rightarrow> (Inr p, s)))"

subsection \<open>The transaction manager\<close>

text \<open>
  Modelled from the spec: the transaction manager's contract is \<open>begin() -> txn\<close> and
  \<open>commit(txn, post_commit_callback)\<close>; it is not among the sources. The model numbers
  the transactions in the order they begin and records which were committed.
\<close>

definition BeginTransaction :: "nat M" where
  "BeginTransaction s = (Inr (begun s), s\<lparr>begun := begun s + 1\<rparr>)"

definition Commit :: "nat \<Rightarrow> unit M" where
  "Commit txn = modify (\<lambda>s. s\<lparr>committed := committed s @ [txn]\<rparr>)"

subsection \<open>The other handles\<close>

text \<open>
  Modelled from the spec: \<^verbatim>\<open>NamespaceHandle\<close>, \<^verbatim>\<open>ClassHandle\<close>, \<^verbatim>\<open>TablespaceHandle\<close>
  and \<^verbatim>\<open>AttrDefHandle\<close> as this file calls them are not among the sources (the header
  of \<^verbatim>\<open>NamespaceHandle\<close> that is declares neither \<^verbatim>\<open>Create\<close> nor \<^verbatim>\<open>AddEntry\<close>). The
  specification has one pattern for all of them. A handle is "constructed from a
  reference to its underlying relation storage", obtained "from the registry via the
  Catalog object". The relation is created as the file creates \<^verbatim>\<open>pg_database\<close> and
  \<^verbatim>\<open>pg_attribute\<close>: a table identifier and one column identifier per column from the
  allocator, \<^verbatim>\<open>Create()\<close>, and the registration in both registry maps. \<open>add_entry\<close>
  "allocates an identifier, constructs a typed row in schema-declared column order,
  fills any schema-declared-but-unused columns with type-appropriate defaults, and
  inserts it"; the class handle is given the identifier by its caller. \<open>get_entry\<close>
  by name is the scan of \<open>GetEntry\<close>.
\<close>

definition AddUnusedSchemaColumns :: "addr \<Rightarrow> SchemaCols list \<Rightarrow> unit M" where
  "AddUnusedSchemaColumns db_p cols =
     forM cols (\<lambda>col.
       bindM GetNextOid (\<lambda>oid. DefineColumn db_p (col_name col) (type_id col) False oid))"

definition Handle_Create :: "SchemaCols list \<Rightarrow> SchemaCols list \<Rightarrow> db_oid_t \<Rightarrow> string \<Rightarrow> addr M" where
  "Handle_Create schema_cols unused_schema_cols db_oid name =
     bindM GetNextOid (\<lambda>storage_table_oid.
     bindM (make_shared_SqlTableRW storage_table_oid) (\<lambda>storage_table.
     thenM (AddUnusedSchemaColumns storage_table schema_cols) (
     thenM (AddUnusedSchemaColumns storage_table unused_schema_cols) (
     thenM (Create storage_table) (
     thenM (map_assign db_oid storage_table_oid storage_table) (
     thenM (name_map_assign db_oid name storage_table_oid) (
     ret storage_table)))))))"

definition NamespaceHandle_Create :: "CatalogDefs \<Rightarrow> db_oid_t \<Rightarrow> string \<Rightarrow> addr M" where
  "NamespaceHandle_Create defs =
     Handle_Create (NamespaceHandle_schema_cols defs) (NamespaceHandle_unused_schema_cols defs)"

definition ClassHandle_Create :: "CatalogDefs \<Rightarrow> db_oid_t \<Rightarrow> string \<Rightarrow> addr M" where
  "ClassHandle_Create defs =
     Handle_Create (ClassHandle_schema_cols defs) (ClassHandle_unused_schema_cols defs)"

definition AttrDefHandle_Create :: "CatalogDefs \<Rightarrow> db_oid_t \<Rightarrow> string \<Rightarrow> addr M" where
  "AttrDefHandle_Create defs =
     Handle_Create (AttrDefHandle_schema_cols defs) (AttrDefHandle_unused_schema_cols defs)"

definition GetNamespaceHandle :: "db_oid_t \<Rightarrow> addr M" where
  "GetNamespaceHandle db_oid = lift (\<lambda>s. GetDatabaseCatalog_name s db_oid ''pg_namespace'')"

definition GetClassHandle :: "db_oid_t \<Rightarrow> addr M" where
  "GetClassHandle db_oid = lift (\<lambda>s. GetDatabaseCatalog_name s db_oid ''pg_class'')"

definition GetTablespaceHandle :: "state \<Rightarrow> addr" where
  "GetTablespaceHandle s = pg_tablespace_' s"

definition NamespaceHandle_AddEntry :: "CatalogDefs \<Rightarrow> addr \<Rightarrow> string \<Rightarrow> oid_t M" where
  "NamespaceHandle_AddEntry defs ns_handle name =
     bindM GetNextOid (\<lambda>oid.
     bindM (filled [IntegerValue oid, VarcharValue name]
              (NamespaceHandle_unused_schema_cols defs)) (\<lambda>row.
     thenM (InsertRow ns_handle row) (ret oid)))"

definition ClassHandle_AddEntry ::
  "CatalogDefs \<Rightarrow> addr \<Rightarrow> addr \<Rightarrow> oid_t \<Rightarrow> string \<Rightarrow> oid_t \<Rightarrow> oid_t \<Rightarrow> unit M" where
  "ClassHandle_AddEntry defs class_handle tbl_ptr entry_oid name ns_oid ts_oid =
     bindM (filled [BigIntValue tbl_ptr, IntegerValue entry_oid, VarcharValue name,
                    IntegerValue ns_oid, IntegerValue ts_oid]
              (ClassHandle_unused_schema_cols defs)) (\<lambda>row.
     InsertRow class_handle row)"

text \<open>
  \<^verbatim>\<open>GetNamespaceEntry(txn, name)->GetNamespaceOid()\<close>, and the tablespace handle's like:
  the entry pointer is dereferenced as it comes. \<^verbatim>\<open>NameToOid\<close> is taken to be the same
  lookup.
\<close>

definition entry_oid_of :: "Entry option \<Rightarrow> oid_t M" where
  "entry_oid_of entry = (case entry of None \<Rightarrow> throw InvalidDereference | Some e \<Rightarrow> ret (e_oid e))"

definition NameToOid :: "addr \<Rightarrow> string \<Rightarrow> oid_t M" where
  "NameToOid ns_handle name = bindM (GetEntry ns_handle name) entry_oid_of"

subsection \<open>Bootstrap\<close>

definition CreatePGDatabase :: "CatalogDefs \<Rightarrow> table_oid_t \<Rightarrow> unit M" where
  "CreatePGDatabase defs table_oid =
     bindM (make_shared_SqlTableRW table_oid) (\<lambda>p.
     thenM (modify (\<lambda>s. s\<lparr>pg_database_' := p\<rparr>)) (
     thenM (AddUnusedSchemaColumns p (DatabaseHandle_schema_cols defs)) (
     thenM (AddUnusedSchemaColumns p (DatabaseHandle_unused_schema_cols defs)) (
     thenM (Create p)
       (modify (\<lambda>s. s\<lparr>map_' := (map_' s)(DEFAULT_DATABASE_OID defs \<mapsto> Map.empty)\<rparr>))))))"

definition PopulatePGDatabase :: "CatalogDefs \<Rightarrow> unit M" where
  "PopulatePGDatabase defs =
     bindM (filled [IntegerValue (DEFAULT_DATABASE_OID defs), VarcharValue ''terrier'']
              (DatabaseHandle_unused_schema_cols defs)) (\<lambda>row.
     bindM (gets pg_database_') (\<lambda>pg_database. InsertRow pg_database row))"

definition CreatePGTablespace :: "CatalogDefs \<Rightarrow> table_oid_t \<Rightarrow> unit M" where
  "CreatePGTablespace defs table_oid =
     bindM (make_shared_SqlTableRW table_oid) (\<lambda>p.
     thenM (modify (\<lambda>s. s\<lparr>pg_tablespace_' := p\<rparr>)) (
     bindM GetNextOid (\<lambda>oid1.
     thenM (DefineColumn p ''oid'' INTEGER False oid1) (
     bindM GetNextOid (\<lambda>oid2.
     thenM (DefineColumn p ''spcname'' VARCHAR False oid2) (
     thenM (AddUnusedSchemaColumns p (pg_tablespace_unused_cols defs))
       (Create p)))))))"

definition PopulatePGTablespace :: "CatalogDefs \<Rightarrow> unit M" where
  "PopulatePGTablespace defs =
     bindM GetNextOid (\<lambda>pg_global_oid.
     bindM GetNextOid (\<lambda>pg_default_oid.
     bindM (filled [IntegerValue pg_global_oid, VarcharValue ''pg_global'']
              (pg_tablespace_unused_cols defs)) (\<lambda>row1.
     bindM (gets pg_tablespace_') (\<lambda>pg_tablespace.
     thenM (InsertRow pg_tablespace row1) (
     bindM (filled [IntegerValue pg_default_oid, VarcharValue ''pg_default'']
              (pg_tablespace_unused_cols defs)) (\<lambda>row2.
     InsertRow pg_tablespace row2))))))"

text \<open>
  \<^verbatim>\<open>AddColumnsToPGAttribute\<close> reads the schema of the table and then finds
  \<^verbatim>\<open>pg_attribute\<close> with the subscript operator, which inserts what is missing.
\<close>

definition AddColumnsToPGAttribute :: "db_oid_t \<Rightarrow> addr \<Rightarrow> unit M" where
  "AddColumnsToPGAttribute db_oid table =
     bindM (deref table) (\<lambda>t.
     bindM (name_map_index db_oid ''pg_attribute'') (\<lambda>pg_attribute_oid.
     bindM (map_index db_oid pg_attribute_oid) (\<lambda>pg_attribute.
     forM (t_columns t) (\<lambda>c.
       InsertRow pg_attribute
         [IntegerValue (c_oid c), IntegerValue (t_oid t), VarcharValue (c_name c),
          IntegerValue 0, IntegerValue 0, IntegerValue 0]))))"

definition CreatePGAttribute :: "db_oid_t \<Rightarrow> unit M" where
  "CreatePGAttribute db_oid =
     bindM GetNextOid (\<lambda>pg_attribute_oid.
     bindM (make_shared_SqlTableRW pg_attribute_oid) (\<lambda>pg_attribute.
     bindM GetNextOid (\<lambda>col0. bindM GetNextOid (\<lambda>col1. bindM GetNextOid (\<lambda>col2.
     bindM GetNextOid (\<lambda>col3. bindM GetNextOid (\<lambda>col4. bindM GetNextOid (\<lambda>col5.
     thenM (DefineColumn pg_attribute ''oid'' INTEGER False col0) (
     thenM (DefineColumn pg_attribute ''attrelid'' INTEGER False col1) (
     thenM (DefineColumn pg_attribute ''attname'' VARCHAR False col2) (
     thenM (DefineColumn pg_attribute ''atttypid'' INTEGER True col3) (
     thenM (DefineColumn pg_attribute ''attlen'' INTEGER True col4) (
     thenM (DefineColumn pg_attribute ''attnum'' INTEGER True col5) (
     thenM (Create pg_attribute) (
     thenM (map_assign db_oid pg_attribute_oid pg_attribute) (
     thenM (name_map_assign db_oid ''pg_attribute'' pg_attribute_oid) (
     thenM (AddColumnsToPGAttribute db_oid pg_attribute) (
     bindM (name_map_index db_oid ''pg_database'') (\<lambda>pg_database_oid.
     bindM (map_index db_oid pg_database_oid) (\<lambda>pg_database.
     thenM (AddColumnsToPGAttribute db_oid pg_database) (
     bindM (name_map_index db_oid ''pg_tablespace'') (\<lambda>pg_tablespace_oid.
     bindM (map_index db_oid pg_tablespace_oid) (\<lambda>pg_tablespace.
     AddColumnsToPGAttribute db_oid pg_tablespace)))))))))))))))))))))))"

definition CreatePGNameSpace :: "CatalogDefs \<Rightarrow> db_oid_t \<Rightarrow> unit M" where
  "CreatePGNameSpace defs db_oid =
     bindM (NamespaceHandle_Create defs db_oid ''pg_namespace'') (\<lambda>pg_namespace.
     bindM (GetNamespaceHandle db_oid) (\<lambda>ns_handle.
     bindM (NamespaceHandle_AddEntry defs ns_handle ''pg_catalog'') (\<lambda>oid1.
     bindM (NamespaceHandle_AddEntry defs ns_handle ''public'') (\<lambda>oid2.
     ret ()))))"

text \<open>
  \<^verbatim>\<open>CreatePGClass\<close> inserts five rows: \<^verbatim>\<open>pg_database\<close>, \<^verbatim>\<open>pg_tablespace\<close>,
  \<^verbatim>\<open>pg_namespace\<close>, \<^verbatim>\<open>pg_class\<close> and \<^verbatim>\<open>pg_attribute\<close>. Each row carries the address
  of the table object (\<^verbatim>\<open>reinterpret_cast<uint64_t>(GetDatabaseCatalog(...).get())\<close>).
\<close>

definition class_row_for ::
  "CatalogDefs \<Rightarrow> db_oid_t \<Rightarrow> addr \<Rightarrow> string \<Rightarrow> oid_t \<Rightarrow> oid_t \<Rightarrow> unit M" where
  "class_row_for defs db_oid class_handle name ns_oid ts_oid =
     bindM (lift (\<lambda>s. GetDatabaseCatalog_name s db_oid name)) (\<lambda>tbl_p.
     bindM (lift (\<lambda>s. GetDatabaseCatalog_name s db_oid name)) (\<lambda>tbl.
     bindM (Oid tbl) (\<lambda>entry_oid.
     ClassHandle_AddEntry defs class_handle tbl_p entry_oid name ns_oid ts_oid)))"

definition CreatePGClass :: "CatalogDefs \<Rightarrow> db_oid_t \<Rightarrow> unit M" where
  "CreatePGClass defs db_oid =
     bindM (ClassHandle_Create defs db_oid ''pg_class'') (\<lambda>pg_class.
     bindM (GetClassHandle db_oid) (\<lambda>class_handle.
     bindM (GetNamespaceHandle db_oid) (\<lambda>ns_handle.
     bindM (bindM (GetEntry ns_handle ''pg_catalog'') entry_oid_of) (\<lambda>pg_catalog_namespace_oid.
     bindM (gets GetTablespaceHandle) (\<lambda>ts_handle.
     bindM (bindM (GetEntry ts_handle ''pg_global'') entry_oid_of) (\<lambda>pg_global_ts_oid.
     bindM (bindM (GetEntry ts_handle ''pg_default'') entry_oid_of) (\<lambda>pg_default_ts_oid.
     thenM (class_row_for defs db_oid class_handle ''pg_database''
              pg_catalog_namespace_oid pg_global_ts_oid) (
     thenM (class_row_for defs db_oid class_handle ''pg_tablespace''
              pg_catalog_namespace_oid pg_global_ts_oid) (
     thenM (class_row_for defs db_oid class_handle ''pg_namespace''
              pg_catalog_namespace_oid pg_default_ts_oid) (
     thenM (class_row_for defs db_oid class_handle ''pg_class''
              pg_catalog_namespace_oid pg_default_ts_oid) (
     class_row_for defs db_oid class_handle ''pg_attribute''
       pg_catalog_namespace_oid pg_default_ts_oid)))))))))))"

definition BootstrapDatabase :: "CatalogDefs \<Rightarrow> db_oid_t \<Rightarrow> unit M" where
  "BootstrapDatabase defs db_oid =
     bindM (gets pg_database_') (\<lambda>pg_database.
     bindM (gets pg_tablespace_') (\<lambda>pg_tablespace.
     bindM (Oid pg_database) (\<lambda>oid1.
     thenM (map_assign db_oid oid1 pg_database) (
     bindM (Oid pg_tablespace) (\<lambda>oid2.
     thenM (map_assign db_oid oid2 pg_tablespace) (
     bindM (Oid pg_database) (\<lambda>oid3.
     thenM (name_map_assign db_oid ''pg_database'' oid3) (
     bindM (Oid pg_tablespace) (\<lambda>oid4.
     thenM (name_map_assign db_oid ''pg_tablespace'' oid4) (
     thenM (CreatePGAttribute db_oid) (
     thenM (CreatePGNameSpace defs db_oid) (
     thenM (CreatePGClass defs db_oid) (
     bindM (AttrDefHandle_Create defs db_oid ''pg_attrdef'') (\<lambda>pg_attrdef.
     ret ()))))))))))))))"

definition Bootstrap :: "CatalogDefs \<Rightarrow> unit M" where
  "Bootstrap defs =
     bindM BeginTransaction (\<lambda>txn.
     bindM GetNextOid (\<lambda>oid1.
     thenM (CreatePGDatabase defs oid1) (
     thenM (PopulatePGDatabase defs) (
     bindM GetNextOid (\<lambda>oid2.
     thenM (CreatePGTablespace defs oid2) (
     thenM (PopulatePGTablespace defs) (
     thenM (BootstrapDatabase defs (DEFAULT_DATABASE_OID defs))
       (Commit txn))))))))"

text \<open>The constructor: the initialiser list, then \<^verbatim>\<open>Bootstrap()\<close>.\<close>

definition Catalog :: "CatalogDefs \<Rightarrow> (error + unit) \<times> state" where
  "Catalog defs = Bootstrap defs (Catalog_init defs)"

subsection \<open>The type relation\<close>

text \<open>
  \<^verbatim>\<open>CreatePGType\<close> is defined in the file; \<^verbatim>\<open>BootstrapDatabase\<close> does not call it. The
  rows have the five used cells only. The source writes the nine blocks out; they
  differ in the type name and the length cell.
\<close>

definition type_row :: "addr \<Rightarrow> string \<Rightarrow> oid_t \<Rightarrow> 32 word \<Rightarrow> unit M" where
  "type_row pg_type name catalog_ns_oid len =
     bindM GetNextOid (\<lambda>oid.
     InsertRow pg_type
       [IntegerValue oid, VarcharValue name, IntegerValue catalog_ns_oid,
        IntegerValue len, VarcharValue ''b''])"

definition CreatePGType :: "CatalogDefs \<Rightarrow> db_oid_t \<Rightarrow> unit M" where
  "CreatePGType defs db_oid =
     bindM GetNextOid (\<lambda>pg_type_oid.
     bindM (make_shared_SqlTableRW pg_type_oid) (\<lambda>pg_type.
     bindM GetNextOid (\<lambda>col0.
     thenM (DefineColumn pg_type ''oid'' INTEGER False col0) (
     bindM GetNextOid (\<lambda>col1.
     thenM (DefineColumn pg_type ''typname'' VARCHAR False col1) (
     bindM GetNextOid (\<lambda>col2.
     thenM (DefineColumn pg_type ''typnamespace'' INTEGER False col2) (
     bindM GetNextOid (\<lambda>col3.
     thenM (DefineColumn pg_type ''typlen'' SMALLINT False col3) (
     bindM GetNextOid (\<lambda>col4.
     thenM (DefineColumn pg_type ''typtype'' VARCHAR False col4) (
     thenM (AddUnusedSchemaColumns pg_type (pg_type_unused_cols defs)) (
     thenM (Create pg_type) (
     thenM (map_assign db_oid pg_type_oid pg_type) (
     thenM (name_map_assign db_oid ''pg_type'' pg_type_oid) (
     bindM (GetNamespaceHandle db_oid) (\<lambda>ns_handle.
     bindM (bindM (GetEntry ns_handle ''pg_catalog'') entry_oid_of) (\<lambda>catalog_ns_oid.
     thenM (type_row pg_type ''boolean'' catalog_ns_oid (GetTypeSize defs BOOLEAN)) (
     thenM (type_row pg_type ''tinyint'' catalog_ns_oid (GetTypeSize defs TINYINT)) (
     thenM (type_row pg_type ''smallint'' catalog_ns_oid (GetTypeSize defs SMALLINT)) (
     thenM (type_row pg_type ''integer'' catalog_ns_oid (GetTypeSize defs INTEGER)) (
     thenM (type_row pg_type ''date'' catalog_ns_oid (GetTypeSize defs DATE)) (
     thenM (type_row pg_type ''bigint'' catalog_ns_oid (GetTypeSize defs BIGINT)) (
     thenM (type_row pg_type ''decimal'' catalog_ns_oid (GetTypeSize defs DECIMAL)) (
     thenM (type_row pg_type ''timestamp'' catalog_ns_oid (GetTypeSize defs TIMESTAMP)) (
     type_row pg_type ''varchar'' catalog_ns_oid (- 1)))))))))))))))))))))))))))"

subsection \<open>Reclamation on database drop\<close>

text \<open>
  \<^verbatim>\<open>DestroyDB\<close> initialises a buffer for 100 tuples
  (\<^verbatim>\<open>InitializerForProjectedColumns(col_oids, 100)\<close>) and calls \<^verbatim>\<open>Scan\<close> once. Modelled
  from the spec: the collaborator's \<open>scan(txn, projection) -> rows\<close> materialises the rows
  in table order into the buffer it is given, \<^verbatim>\<open>NumTuples()\<close> of them; a buffer for
  \<open>max_tuples\<close> tuples holds no more than that.
\<close>

definition Scan :: "nat \<Rightarrow> SqlTableRW \<Rightarrow> Value list list" where
  "Scan max_tuples t = take max_tuples (t_rows t)"

text \<open>
  The cells are read at fixed types: the fourth column as \<^verbatim>\<open>uint32_t\<close>, the first as
  \<^verbatim>\<open>int64_t\<close>. The model's cells are typed; a cell of another type, or a row too short,
  is \<open>BadCell\<close>.
\<close>

definition cell_uint32 :: "Value list \<Rightarrow> nat \<Rightarrow> 32 word M" where
  "cell_uint32 row i =
     (if i < length row then (case row ! i of IntegerValue w \<Rightarrow> ret w | _ \<Rightarrow> throw BadCell)
      else throw BadCell)"

definition cell_int64 :: "Value list \<Rightarrow> nat \<Rightarrow> 64 word M" where
  "cell_int64 row i =
     (if i < length row then (case row ! i of BigIntValue w \<Rightarrow> ret w | _ \<Rightarrow> throw BadCell)
      else throw BadCell)"

text \<open>
  \<^verbatim>\<open>delete reinterpret_cast<SqlTableRW *>(ptr)\<close>: nothing happens for the null pointer;
  a live object is destroyed; any other address is an invalid delete.
\<close>

definition delete_SqlTableRW :: "addr \<Rightarrow> unit M" where
  "delete_SqlTableRW ptr s =
     (if ptr = 0 then (Inr (), s)
      else (case heap s ptr of
              None \<Rightarrow> (Inl InvalidDelete, s)
            | Some t \<Rightarrow> (Inr (), s\<lparr>heap := (heap s)(ptr := None), deleted := deleted s @ [ptr]\<rparr>)))"

text \<open>
  The body of the loop over the scanned tuples: the namespace identifier of the row is
  compared with that of \<open>pg_catalog\<close>, and the object of any other row is deleted.
\<close>

definition DestroyDB_row :: "oid_t \<Rightarrow> Value list \<Rightarrow> unit M" where
  "DestroyDB_row pg_catalog_oid row =
     bindM (cell_uint32 row 3) (\<lambda>nsp_oid.
       if nsp_oid \<noteq> pg_catalog_oid
       then bindM (cell_int64 row 0) (\<lambda>ptr. delete_SqlTableRW ptr)
       else ret ())"

definition DestroyDB :: "db_oid_t \<Rightarrow> unit M" where
  "DestroyDB oid =
     bindM BeginTransaction (\<lambda>txn.
     bindM (lift (\<lambda>s. GetDatabaseCatalog_name s oid ''pg_class'')) (\<lambda>pg_class.
     bindM (deref pg_class) (\<lambda>pg_class_ptr.
     bindM (ret (Scan 100 pg_class_ptr)) (\<lambda>columns.
     bindM (GetNamespaceHandle oid) (\<lambda>ns_handle.
     bindM (NameToOid ns_handle ''pg_catalog'') (\<lambda>pg_catalog_oid.
     forM columns (DestroyDB_row pg_catalog_oid)))))))"

text \<open>
  The address that a row of \<open>pg_class\<close> encodes for reclamation: the first cell of a row
  whose fourth cell is a namespace identifier other than that of \<open>pg_catalog\<close>.
\<close>

definition user_ptr :: "oid_t \<Rightarrow> Value list \<Rightarrow> addr option" where
  "user_ptr catalog_oid row =
     (if 3 < length row
      then (case row ! 3 of
              IntegerValue nsp_oid \<Rightarrow>
                if nsp_oid \<noteq> catalog_oid
                then (case row ! 0 of BigIntValue ptr \<Rightarrow> Some ptr | _ \<Rightarrow> None)
                else None
            | _ \<Rightarrow> None)
      else None)"

subsection \<open>The state the constructor leaves\<close>

text \<open>
  \<open>nth_oid start k\<close> is the identifier the allocator returns \<open>k\<close> calls after it returned
  \<open>start\<close>; \<open>new_columns first cols\<close> are the columns that a loop of
  \<^verbatim>\<open>DefineColumn(col.col_name, col.type_id, false, col_oid_t(GetNextOid()))\<close> defines when the
  counter stands at \<open>first\<close>.
\<close>

definition nth_oid :: "oid_t \<Rightarrow> nat \<Rightarrow> oid_t" where
  "nth_oid start k = start + of_nat k"

fun new_columns :: "oid_t \<Rightarrow> SchemaCols list \<Rightarrow> Column list" where
  "new_columns first [] = []"
| "new_columns first (col # cols) =
     \<lparr>c_name = col_name col, c_type = type_id col, c_nullable = False, c_oid = first\<rparr> #
     new_columns (first + 1) cols"

text \<open>The numbers of columns of the five relations whose column tables are parameters.\<close>

definition n_db :: "CatalogDefs \<Rightarrow> nat" where
  "n_db defs =
     length (DatabaseHandle_schema_cols defs) + length (DatabaseHandle_unused_schema_cols defs)"

definition n_ts :: "CatalogDefs \<Rightarrow> nat" where
  "n_ts defs = 2 + length (pg_tablespace_unused_cols defs)"

definition n_ns :: "CatalogDefs \<Rightarrow> nat" where
  "n_ns defs =
     length (NamespaceHandle_schema_cols defs) + length (NamespaceHandle_unused_schema_cols defs)"

definition n_class :: "CatalogDefs \<Rightarrow> nat" where
  "n_class defs =
     length (ClassHandle_schema_cols defs) + length (ClassHandle_unused_schema_cols defs)"

definition n_attrdef :: "CatalogDefs \<Rightarrow> nat" where
  "n_attrdef defs =
     length (AttrDefHandle_schema_cols defs) + length (AttrDefHandle_unused_schema_cols defs)"

text \<open>
  The parameters under which bootstrap runs through: every unused column that a row is
  filled for has a default, and the identifiers that bootstrap allocates do not wrap
  around the 32-bit counter.
\<close>

definition defs_ok :: "CatalogDefs \<Rightarrow> bool" where
  "defs_ok defs \<longleftrightarrow>
     list_all has_default (DatabaseHandle_unused_schema_cols defs) \<and>
     list_all has_default (pg_tablespace_unused_cols defs) \<and>
     list_all has_default (NamespaceHandle_unused_schema_cols defs) \<and>
     list_all has_default (ClassHandle_unused_schema_cols defs) \<and>
     n_db defs + n_ts defs + n_ns defs + n_class defs + n_attrdef defs + 16 < 2 ^ 32"

text \<open>The identifiers in the order bootstrap draws them.\<close>

definition pg_database_oid :: "CatalogDefs \<Rightarrow> oid_t" where
  "pg_database_oid defs = START_OID defs"

definition pg_tablespace_oid :: "CatalogDefs \<Rightarrow> oid_t" where
  "pg_tablespace_oid defs = nth_oid (START_OID defs) (n_db defs + 1)"

definition pg_global_oid :: "CatalogDefs \<Rightarrow> oid_t" where
  "pg_global_oid defs = nth_oid (START_OID defs) (n_db defs + n_ts defs + 2)"

definition pg_default_oid :: "CatalogDefs \<Rightarrow> oid_t" where
  "pg_default_oid defs = nth_oid (START_OID defs) (n_db defs + n_ts defs + 3)"

definition pg_attribute_oid :: "CatalogDefs \<Rightarrow> oid_t" where
  "pg_attribute_oid defs = nth_oid (START_OID defs) (n_db defs + n_ts defs + 4)"

definition pg_namespace_oid :: "CatalogDefs \<Rightarrow> oid_t" where
  "pg_namespace_oid defs = nth_oid (START_OID defs) (n_db defs + n_ts defs + 11)"

definition pg_catalog_oid :: "CatalogDefs \<Rightarrow> oid_t" where
  "pg_catalog_oid defs = nth_oid (START_OID defs) (n_db defs + n_ts defs + n_ns defs + 12)"

definition public_oid :: "CatalogDefs \<Rightarrow> oid_t" where
  "public_oid defs = nth_oid (START_OID defs) (n_db defs + n_ts defs + n_ns defs + 13)"

definition pg_class_oid :: "CatalogDefs \<Rightarrow> oid_t" where
  "pg_class_oid defs = nth_oid (START_OID defs) (n_db defs + n_ts defs + n_ns defs + 14)"

definition pg_attrdef_oid :: "CatalogDefs \<Rightarrow> oid_t" where
  "pg_attrdef_oid defs =
     nth_oid (START_OID defs) (n_db defs + n_ts defs + n_ns defs + n_class defs + 15)"

text \<open>The row that \<open>ClassHandle_AddEntry\<close> inserts.\<close>

definition class_row :: "CatalogDefs \<Rightarrow> addr \<Rightarrow> oid_t \<Rightarrow> string \<Rightarrow> oid_t \<Rightarrow> oid_t \<Rightarrow> Value list" where
  "class_row defs tbl_ptr entry_oid name ns_oid ts_oid =
     [BigIntValue tbl_ptr, IntegerValue entry_oid, VarcharValue name,
      IntegerValue ns_oid, IntegerValue ts_oid] @
     map default_of (ClassHandle_unused_schema_cols defs)"

text \<open>The number of 32-bit identifiers.\<close>

definition oid_space :: nat where
  "oid_space = 2 ^ 32"

text \<open>The rows of the relation that the registry of a database knows under a name.\<close>

definition table_rows :: "state \<Rightarrow> db_oid_t \<Rightarrow> string \<Rightarrow> Value list list option" where
  "table_rows s db_oid name =
     (case GetDatabaseCatalog_name s db_oid name of
        Inl e \<Rightarrow> None
      | Inr p \<Rightarrow> map_option t_rows (heap s p))"

text \<open>
  The registry invariant of the specification: every table identifier in the
  id-to-relation map of a database has exactly one name in the name map of that
  database.
\<close>

definition registry_inv :: "state \<Rightarrow> bool" where
  "registry_inv s \<longleftrightarrow>
     (\<forall>db tables t. map_' s db = Some tables \<and> t \<in> dom tables \<longrightarrow>
        (\<exists>names. name_map_' s db = Some names \<and> (\<exists>!n. names n = Some t)))"

subsection \<open>A concrete catalog\<close>

text \<open>
  One choice of the parameters, on which the model is evaluated: the counter starts at
  1001, the default database is 1, and every relation has a few reserved columns.
\<close>

definition example_defs :: CatalogDefs where
  "example_defs =
     \<lparr>START_OID = 1001, DEFAULT_DATABASE_OID = 1,
      DatabaseHandle_schema_cols =
        [\<lparr>col_name = ''oid'', type_id = INTEGER\<rparr>, \<lparr>col_name = ''datname'', type_id = VARCHAR\<rparr>],
      DatabaseHandle_unused_schema_cols =
        [\<lparr>col_name = ''datdba'', type_id = INTEGER\<rparr>,
         \<lparr>col_name = ''datcollate'', type_id = VARCHAR\<rparr>,
         \<lparr>col_name = ''datistemplate'', type_id = BOOLEAN\<rparr>],
      pg_tablespace_unused_cols =
        [\<lparr>col_name = ''spcowner'', type_id = INTEGER\<rparr>,
         \<lparr>col_name = ''spcacl'', type_id = VARCHAR\<rparr>],
      pg_type_unused_cols = [\<lparr>col_name = ''typowner'', type_id = INTEGER\<rparr>],
      NamespaceHandle_schema_cols =
        [\<lparr>col_name = ''oid'', type_id = INTEGER\<rparr>, \<lparr>col_name = ''nspname'', type_id = VARCHAR\<rparr>],
      NamespaceHandle_unused_schema_cols = [],
      ClassHandle_schema_cols =
        [\<lparr>col_name = ''__ptr'', type_id = BIGINT\<rparr>, \<lparr>col_name = ''oid'', type_id = INTEGER\<rparr>,
         \<lparr>col_name = ''relname'', type_id = VARCHAR\<rparr>,
         \<lparr>col_name = ''relnamespace'', type_id = INTEGER\<rparr>,
         \<lparr>col_name = ''reltablespace'', type_id = INTEGER\<rparr>],
      ClassHandle_unused_schema_cols = [],
      AttrDefHandle_schema_cols =
        [\<lparr>col_name = ''oid'', type_id = INTEGER\<rparr>, \<lparr>col_name = ''adrelid'', type_id = INTEGER\<rparr>],
      AttrDefHandle_unused_schema_cols = [],
      GetTypeSize = (\<lambda>t. case t of BOOLEAN \<Rightarrow> 1 | TINYINT \<Rightarrow> 1 | SMALLINT \<Rightarrow> 2
         | INTEGER \<Rightarrow> 4 | BIGINT \<Rightarrow> 8 | DECIMAL \<Rightarrow> 8 | TIMESTAMP \<Rightarrow> 8 | DATE \<Rightarrow> 4
         | VARCHAR \<Rightarrow> 0)\<rparr>"

text \<open>
  Modelled from the spec: user relations are created by DDL that is not among the sources.
  By the data model of the specification a user relation is an object of its own that no
  registry slot holds; only the integer in its \<open>pg_class\<close> row refers to it. On the catalog
  that the constructor leaves for \<open>example_defs\<close> (\<open>pg_class\<close> at address 5, addresses free
  from 7, the counter at 1035, namespace \<open>public\<close> 1025, tablespace \<open>pg_default\<close> 1013),
  \<open>with_user_tables n\<close> adds \<open>n\<close> user relations in namespace \<open>public\<close>; \<open>crowded\<close> has 101
  of them.
\<close>

definition user_table_name :: "nat \<Rightarrow> string" where
  "user_table_name i =
     ''user_table_'' @ [char_of (48 + i div 100 mod 10), char_of (48 + i div 10 mod 10),
                        char_of (48 + i mod 10)]"

definition user_table :: "nat \<Rightarrow> SqlTableRW" where
  "user_table i = \<lparr>t_oid = 1035 + of_nat i, t_columns = [], t_created = True, t_rows = []\<rparr>"

definition user_class_row :: "nat \<Rightarrow> Value list" where
  "user_class_row i =
     [BigIntValue (7 + of_nat i), IntegerValue (1035 + of_nat i), VarcharValue (user_table_name i),
      IntegerValue 1025, IntegerValue 1013]"

definition with_user_tables :: "nat \<Rightarrow> state \<Rightarrow> state" where
  "with_user_tables n s =
     s\<lparr>heap := (\<lambda>p. if p = 5
                    then map_option (\<lambda>t. t\<lparr>t_rows := t_rows t @ map user_class_row [0..<n]\<rparr>)
                           (heap s 5)
                    else if 7 \<le> unat p \<and> unat p < 7 + n then Some (user_table (unat p - 7))
                    else heap s p),
       next_addr := 7 + of_nat n,
       oid_' := 1035 + of_nat n\<rparr>"

definition crowded :: state where
  "crowded = with_user_tables 101 (snd (Catalog example_defs))"

section \<open>Properties\<close>

subsection \<open>Default filling\<close>

lemma SetUnusedColumns_all:
  "list_all has_default cols \<Longrightarrow>
   SetUnusedColumns vec cols = (Inr (), vec @ map default_of cols)"
proof (induction cols arbitrary: vec)
  case Nil
  then show ?case by simp
next
  case (Cons col cols)
  then show ?case
    by (cases "type_id col") (simp_all add: has_default_def default_of_def)
qed

lemma SetUnusedColumns_stop:
  "\<not> list_all has_default cols \<Longrightarrow>
   SetUnusedColumns vec cols =
     (Inl (NotImplemented ''unsupported type in SetUnusedSchemaColumns (by vec)''),
      vec @ map default_of (takeWhile has_default cols))"
proof (induction cols arbitrary: vec)
  case Nil
  then show ?case by simp
next
  case (Cons col cols)
  then show ?case
    by (cases "type_id col") (simp_all add: has_default_def default_of_def)
qed

subsection \<open>Evaluating the model\<close>

lemmas M_defs = ret_def throw_def bindM_def thenM_def gets_def modify_def lift_def

lemma state_upd_same [simp]: "s\<lparr>oid_' := oid_' s\<rparr> = s" "s\<lparr>heap := heap s\<rparr> = s"
  by simp_all

lemma forM_Cons_run:
  "forM (x # xs) g s = (case g x s of (Inl e, s1) \<Rightarrow> (Inl e, s1) | (Inr u, s1) \<Rightarrow> forM xs g s1)"
  by (simp add: M_defs)

lemma define_step:
  "bindM GetNextOid (\<lambda>oid. DefineColumn p n ty b oid) s =
     (case heap s p of
        None \<Rightarrow> (Inl InvalidDereference, s\<lparr>oid_' := oid_' s + 1\<rparr>)
      | Some t \<Rightarrow>
          (Inr (), s\<lparr>oid_' := oid_' s + 1,
                     heap := (heap s)(p \<mapsto> t\<lparr>t_columns := t_columns t @
                       [\<lparr>c_name = n, c_type = ty, c_nullable = b, c_oid = oid_' s\<rparr>]\<rparr>)\<rparr>))"
  by (cases "heap s p") (simp_all add: M_defs GetNextOid_def DefineColumn_def)

lemma AddUnusedSchemaColumns_eval:
  "AddUnusedSchemaColumns p cols s =
     (case heap s p of
        None \<Rightarrow> (if cols = [] then (Inr (), s) else (Inl InvalidDereference, s\<lparr>oid_' := oid_' s + 1\<rparr>))
      | Some t \<Rightarrow>
          (Inr (), s\<lparr>oid_' := oid_' s + of_nat (length cols),
                     heap := (heap s)(p \<mapsto> t\<lparr>t_columns := t_columns t @ new_columns (oid_' s) cols\<rparr>)\<rparr>))"
  unfolding AddUnusedSchemaColumns_def
proof (induction cols arbitrary: s)
  case Nil
  show ?case
    by (cases "heap s p") (simp_all add: M_defs fun_upd_idem)
next
  case (Cons col cols)
  show ?case
    by (cases "heap s p")
      (simp_all add: forM_Cons_run define_step [of p "col_name col" "type_id col" False s]
          Cons.IH add.assoc add.commute del: forM.simps)
qed

lemma insert_step:
  "InsertRow p row s =
     (case heap s p of
        None \<Rightarrow> (Inl InvalidDereference, s)
      | Some t \<Rightarrow>
          if t_created t then (Inr (), s\<lparr>heap := (heap s)(p \<mapsto> t\<lparr>t_rows := t_rows t @ [row]\<rparr>)\<rparr>)
          else (Inl InvalidDereference, s))"
  by (simp add: InsertRow_def)

lemma forM_InsertRow:
  "forM xs (\<lambda>x. InsertRow p (f x)) s =
     (case heap s p of
        None \<Rightarrow> (if xs = [] then (Inr (), s) else (Inl InvalidDereference, s))
      | Some t \<Rightarrow>
          if t_created t \<or> xs = []
          then (Inr (), s\<lparr>heap := (heap s)(p \<mapsto> t\<lparr>t_rows := t_rows t @ map f xs\<rparr>)\<rparr>)
          else (Inl InvalidDereference, s))"
proof (induction xs arbitrary: s)
  case Nil
  show ?case by (cases "heap s p") (simp_all add: M_defs fun_upd_idem)
next
  case (Cons x xs)
  show ?case
    by (cases "heap s p")
      (simp_all add: forM_Cons_run insert_step [of p "f x"] Cons.IH del: forM.simps)
qed

lemma filled_all: "list_all has_default cols \<Longrightarrow> filled vec cols = ret (vec @ map default_of cols)"
  by (simp add: filled_def SetUnusedColumns_all)


lemma nth_oid_nth_oid [simp]: "nth_oid (nth_oid S k) n = nth_oid S (k + n)"
  by (simp add: nth_oid_def)

lemma GetNextOid_eval: "GetNextOid s = (Inr (oid_' s), s\<lparr>oid_' := nth_oid (oid_' s) 1\<rparr>)"
  by (simp add: GetNextOid_def nth_oid_def)

lemmas AddUnusedSchemaColumns_eval' = AddUnusedSchemaColumns_eval [folded nth_oid_def]

lemma nth_oid_eq_iff:
  assumes "i < 2 ^ 32" "j < 2 ^ 32"
  shows "(nth_oid S i = nth_oid S j) = (i = j)"
proof -
  have "(of_nat i :: 32 word) = of_nat j \<longleftrightarrow> i = j"
    using assms by (simp add: word_of_nat_eq_iff take_bit_nat_eq_self)
  then show ?thesis by (simp add: nth_oid_def)
qed

lemma nth_oid_eq_start:
  assumes "j < 2 ^ 32"
  shows "(nth_oid S j = S) = (j = 0)" "(S = nth_oid S j) = (j = 0)"
  using nth_oid_eq_iff [of j 0 S] assms by (auto simp: nth_oid_def)

lemmas prim_defs = GetNextOid_eval make_shared_SqlTableRW_def deref_def DefineColumn_def Create_def
  InsertRow_def Oid_def map_assign_def name_map_assign_def name_map_index_def map_index_def
  BeginTransaction_def Commit_def GetEntry_def entry_oid_of_def
  GetDatabaseCatalog_def GetDatabaseCatalog_name_def at_def

lemmas stage_defs = Bootstrap_def CreatePGDatabase_def PopulatePGDatabase_def
  CreatePGTablespace_def PopulatePGTablespace_def BootstrapDatabase_def CreatePGAttribute_def
  AddColumnsToPGAttribute_def CreatePGNameSpace_def CreatePGClass_def class_row_for_def
  Handle_Create_def NamespaceHandle_Create_def ClassHandle_Create_def AttrDefHandle_Create_def
  GetNamespaceHandle_def GetClassHandle_def GetTablespaceHandle_def NamespaceHandle_AddEntry_def
  ClassHandle_AddEntry_def


lemma nth_oid_eq_iff':
  "i < oid_space \<Longrightarrow> j < oid_space \<Longrightarrow> (nth_oid S i = nth_oid S j) = (i = j)"
  by (simp add: nth_oid_eq_iff oid_space_def)

lemma nth_oid_eq_start':
  "j < oid_space \<Longrightarrow> (nth_oid S j = S) = (j = 0)"
  "j < oid_space \<Longrightarrow> (S = nth_oid S j) = (j = 0)"
  by (simp_all add: nth_oid_eq_start oid_space_def)

lemmas oid_defs = pg_database_oid_def pg_tablespace_oid_def pg_global_oid_def pg_default_oid_def
  pg_attribute_oid_def pg_namespace_oid_def pg_catalog_oid_def public_oid_def pg_class_oid_def
  pg_attrdef_oid_def n_db_def n_ts_def n_ns_def n_class_def n_attrdef_def

lemma Catalog_result:
  assumes ok: "defs_ok defs"
  shows "\<exists>s t_db t_ts t_attr t_ns t_class t_attrdef g d cat pub c_db c_ts c_attr c_ns c_class
            c_attrdef attr_rows.
     Catalog defs = (Inr (), s) \<and>
     distinct [t_db, t_ts, t_attr, t_ns, t_class, t_attrdef, oid_' s] \<and>
     map_' s = [DEFAULT_DATABASE_OID defs \<mapsto>
       [t_db \<mapsto> 1, t_ts \<mapsto> 2, t_attr \<mapsto> 3, t_ns \<mapsto> 4, t_class \<mapsto> 5, t_attrdef \<mapsto> 6]] \<and>
     name_map_' s = [DEFAULT_DATABASE_OID defs \<mapsto>
       [''pg_database'' \<mapsto> t_db, ''pg_tablespace'' \<mapsto> t_ts, ''pg_attribute'' \<mapsto> t_attr,
        ''pg_namespace'' \<mapsto> t_ns, ''pg_class'' \<mapsto> t_class, ''pg_attrdef'' \<mapsto> t_attrdef]] \<and>
     pg_database_' s = 1 \<and> pg_tablespace_' s = 2 \<and> next_addr s = 7 \<and>
     deleted s = [] \<and> begun s = 1 \<and> committed s = [0] \<and>
     dom (heap s) = {1, 2, 3, 4, 5, 6} \<and>
     heap s 1 = Some \<lparr>t_oid = t_db, t_columns = c_db, t_created = True,
       t_rows = [[IntegerValue (DEFAULT_DATABASE_OID defs), VarcharValue ''terrier''] @
                 map default_of (DatabaseHandle_unused_schema_cols defs)]\<rparr> \<and>
     heap s 2 = Some \<lparr>t_oid = t_ts, t_columns = c_ts, t_created = True,
       t_rows = [[IntegerValue g, VarcharValue ''pg_global''] @
                 map default_of (pg_tablespace_unused_cols defs),
                 [IntegerValue d, VarcharValue ''pg_default''] @
                 map default_of (pg_tablespace_unused_cols defs)]\<rparr> \<and>
     heap s 3 = Some \<lparr>t_oid = t_attr, t_columns = c_attr, t_created = True,
       t_rows = attr_rows\<rparr> \<and>
     heap s 4 = Some \<lparr>t_oid = t_ns, t_columns = c_ns, t_created = True,
       t_rows = [[IntegerValue cat, VarcharValue ''pg_catalog''] @
                 map default_of (NamespaceHandle_unused_schema_cols defs),
                 [IntegerValue pub, VarcharValue ''public''] @
                 map default_of (NamespaceHandle_unused_schema_cols defs)]\<rparr> \<and>
     heap s 5 = Some \<lparr>t_oid = t_class, t_columns = c_class, t_created = True,
       t_rows = [class_row defs 1 t_db ''pg_database'' cat g,
                 class_row defs 2 t_ts ''pg_tablespace'' cat g,
                 class_row defs 4 t_ns ''pg_namespace'' cat d,
                 class_row defs 5 t_class ''pg_class'' cat d,
                 class_row defs 3 t_attr ''pg_attribute'' cat d]\<rparr> \<and>
     heap s 6 = Some \<lparr>t_oid = t_attrdef, t_columns = c_attrdef, t_created = True,
       t_rows = []\<rparr> \<and>
     map_option t_oid (heap s 1) = Some (pg_database_oid defs) \<and>
     map_option t_oid (heap s 2) = Some (pg_tablespace_oid defs) \<and>
     map_option t_oid (heap s 3) = Some (pg_attribute_oid defs) \<and>
     map_option t_oid (heap s 4) = Some (pg_namespace_oid defs) \<and>
     map_option t_oid (heap s 5) = Some (pg_class_oid defs) \<and>
     map_option t_oid (heap s 6) = Some (pg_attrdef_oid defs) \<and>
     map_option (\<lambda>t. map hd (t_rows t)) (heap s 2) =
       Some [IntegerValue (pg_global_oid defs), IntegerValue (pg_default_oid defs)] \<and>
     map_option (\<lambda>t. map hd (t_rows t)) (heap s 4) =
       Some [IntegerValue (pg_catalog_oid defs), IntegerValue (public_oid defs)] \<and>
     oid_' s = nth_oid (START_OID defs)
       (n_db defs + n_ts defs + n_ns defs + n_class defs + n_attrdef defs + 16)"
proof -
  have fills: "list_all has_default (DatabaseHandle_unused_schema_cols defs)"
    "list_all has_default (pg_tablespace_unused_cols defs)"
    "list_all has_default (NamespaceHandle_unused_schema_cols defs)"
    "list_all has_default (ClassHandle_unused_schema_cols defs)"
    using ok by (simp_all add: defs_ok_def)
  have bound: "n_db defs + n_ts defs + n_ns defs + n_class defs + n_attrdef defs + 16 < oid_space"
    using ok by (simp add: defs_ok_def oid_space_def)
  show ?thesis
    using bound unfolding Catalog_def Catalog_init_def
    apply (simp add: stage_defs M_defs prim_defs AddUnusedSchemaColumns_eval' forM_InsertRow
       filled_all fills nth_oid_eq_iff' nth_oid_eq_start' class_row_def oid_defs
       del: forM.simps)
    apply blast
    done
qed


lemma Catalog_booted:
  assumes ok: "defs_ok defs"
  obtains s c_db c_ts c_attr c_ns c_class c_attrdef attr_rows where
    "Catalog defs = (Inr (), s)"
    "distinct [pg_database_oid defs, pg_tablespace_oid defs, pg_attribute_oid defs,
       pg_namespace_oid defs, pg_class_oid defs, pg_attrdef_oid defs, oid_' s]"
    "map_' s = [DEFAULT_DATABASE_OID defs \<mapsto>
       [pg_database_oid defs \<mapsto> 1, pg_tablespace_oid defs \<mapsto> 2, pg_attribute_oid defs \<mapsto> 3,
        pg_namespace_oid defs \<mapsto> 4, pg_class_oid defs \<mapsto> 5, pg_attrdef_oid defs \<mapsto> 6]]"
    "name_map_' s = [DEFAULT_DATABASE_OID defs \<mapsto>
       [''pg_database'' \<mapsto> pg_database_oid defs, ''pg_tablespace'' \<mapsto> pg_tablespace_oid defs,
        ''pg_attribute'' \<mapsto> pg_attribute_oid defs, ''pg_namespace'' \<mapsto> pg_namespace_oid defs,
        ''pg_class'' \<mapsto> pg_class_oid defs, ''pg_attrdef'' \<mapsto> pg_attrdef_oid defs]]"
    "pg_database_' s = 1" "pg_tablespace_' s = 2" "next_addr s = 7"
    "deleted s = []" "begun s = 1" "committed s = [0]"
    "dom (heap s) = {1, 2, 3, 4, 5, 6}"
    "oid_' s = nth_oid (START_OID defs)
       (n_db defs + n_ts defs + n_ns defs + n_class defs + n_attrdef defs + 16)"
    "heap s 1 = Some \<lparr>t_oid = pg_database_oid defs, t_columns = c_db, t_created = True,
       t_rows = [[IntegerValue (DEFAULT_DATABASE_OID defs), VarcharValue ''terrier''] @
                 map default_of (DatabaseHandle_unused_schema_cols defs)]\<rparr>"
    "heap s 2 = Some \<lparr>t_oid = pg_tablespace_oid defs, t_columns = c_ts, t_created = True,
       t_rows = [[IntegerValue (pg_global_oid defs), VarcharValue ''pg_global''] @
                 map default_of (pg_tablespace_unused_cols defs),
                 [IntegerValue (pg_default_oid defs), VarcharValue ''pg_default''] @
                 map default_of (pg_tablespace_unused_cols defs)]\<rparr>"
    "heap s 3 = Some \<lparr>t_oid = pg_attribute_oid defs, t_columns = c_attr, t_created = True,
       t_rows = attr_rows\<rparr>"
    "heap s 4 = Some \<lparr>t_oid = pg_namespace_oid defs, t_columns = c_ns, t_created = True,
       t_rows = [[IntegerValue (pg_catalog_oid defs), VarcharValue ''pg_catalog''] @
                 map default_of (NamespaceHandle_unused_schema_cols defs),
                 [IntegerValue (public_oid defs), VarcharValue ''public''] @
                 map default_of (NamespaceHandle_unused_schema_cols defs)]\<rparr>"
    "heap s 5 = Some \<lparr>t_oid = pg_class_oid defs, t_columns = c_class, t_created = True,
       t_rows = [class_row defs 1 (pg_database_oid defs) ''pg_database''
                   (pg_catalog_oid defs) (pg_global_oid defs),
                 class_row defs 2 (pg_tablespace_oid defs) ''pg_tablespace''
                   (pg_catalog_oid defs) (pg_global_oid defs),
                 class_row defs 4 (pg_namespace_oid defs) ''pg_namespace''
                   (pg_catalog_oid defs) (pg_default_oid defs),
                 class_row defs 5 (pg_class_oid defs) ''pg_class''
                   (pg_catalog_oid defs) (pg_default_oid defs),
                 class_row defs 3 (pg_attribute_oid defs) ''pg_attribute''
                   (pg_catalog_oid defs) (pg_default_oid defs)]\<rparr>"
    "heap s 6 = Some \<lparr>t_oid = pg_attrdef_oid defs, t_columns = c_attrdef, t_created = True,
       t_rows = []\<rparr>"
proof -
  from Catalog_result [OF ok] obtain s t_db t_ts t_attr t_ns t_class t_attrdef g d cat pub
      c_db c_ts c_attr c_ns c_class c_attrdef attr_rows
    where r: "Catalog defs = (Inr (), s)"
      and dist: "distinct [t_db, t_ts, t_attr, t_ns, t_class, t_attrdef, oid_' s]"
      and maps: "map_' s = [DEFAULT_DATABASE_OID defs \<mapsto>
         [t_db \<mapsto> 1, t_ts \<mapsto> 2, t_attr \<mapsto> 3, t_ns \<mapsto> 4, t_class \<mapsto> 5, t_attrdef \<mapsto> 6]]"
        "name_map_' s = [DEFAULT_DATABASE_OID defs \<mapsto>
         [''pg_database'' \<mapsto> t_db, ''pg_tablespace'' \<mapsto> t_ts, ''pg_attribute'' \<mapsto> t_attr,
          ''pg_namespace'' \<mapsto> t_ns, ''pg_class'' \<mapsto> t_class, ''pg_attrdef'' \<mapsto> t_attrdef]]"
      and misc: "pg_database_' s = 1" "pg_tablespace_' s = 2" "next_addr s = 7"
        "deleted s = []" "begun s = 1" "committed s = [0]"
        "dom (heap s) = {1, 2, 3, 4, 5, 6}"
      and h1: "heap s 1 = Some \<lparr>t_oid = t_db, t_columns = c_db, t_created = True,
         t_rows = [[IntegerValue (DEFAULT_DATABASE_OID defs), VarcharValue ''terrier''] @
                   map default_of (DatabaseHandle_unused_schema_cols defs)]\<rparr>"
      and h2: "heap s 2 = Some \<lparr>t_oid = t_ts, t_columns = c_ts, t_created = True,
         t_rows = [[IntegerValue g, VarcharValue ''pg_global''] @
                   map default_of (pg_tablespace_unused_cols defs),
                   [IntegerValue d, VarcharValue ''pg_default''] @
                   map default_of (pg_tablespace_unused_cols defs)]\<rparr>"
      and h3: "heap s 3 = Some \<lparr>t_oid = t_attr, t_columns = c_attr, t_created = True,
         t_rows = attr_rows\<rparr>"
      and h4: "heap s 4 = Some \<lparr>t_oid = t_ns, t_columns = c_ns, t_created = True,
         t_rows = [[IntegerValue cat, VarcharValue ''pg_catalog''] @
                   map default_of (NamespaceHandle_unused_schema_cols defs),
                   [IntegerValue pub, VarcharValue ''public''] @
                   map default_of (NamespaceHandle_unused_schema_cols defs)]\<rparr>"
      and h5: "heap s 5 = Some \<lparr>t_oid = t_class, t_columns = c_class, t_created = True,
         t_rows = [class_row defs 1 t_db ''pg_database'' cat g,
                   class_row defs 2 t_ts ''pg_tablespace'' cat g,
                   class_row defs 4 t_ns ''pg_namespace'' cat d,
                   class_row defs 5 t_class ''pg_class'' cat d,
                   class_row defs 3 t_attr ''pg_attribute'' cat d]\<rparr>"
      and h6: "heap s 6 = Some \<lparr>t_oid = t_attrdef, t_columns = c_attrdef, t_created = True,
         t_rows = []\<rparr>"
      and e: "map_option t_oid (heap s 1) = Some (pg_database_oid defs)"
        "map_option t_oid (heap s 2) = Some (pg_tablespace_oid defs)"
        "map_option t_oid (heap s 3) = Some (pg_attribute_oid defs)"
        "map_option t_oid (heap s 4) = Some (pg_namespace_oid defs)"
        "map_option t_oid (heap s 5) = Some (pg_class_oid defs)"
        "map_option t_oid (heap s 6) = Some (pg_attrdef_oid defs)"
        "map_option (\<lambda>t. map hd (t_rows t)) (heap s 2) =
           Some [IntegerValue (pg_global_oid defs), IntegerValue (pg_default_oid defs)]"
        "map_option (\<lambda>t. map hd (t_rows t)) (heap s 4) =
           Some [IntegerValue (pg_catalog_oid defs), IntegerValue (public_oid defs)]"
      and o: "oid_' s = nth_oid (START_OID defs)
         (n_db defs + n_ts defs + n_ns defs + n_class defs + n_attrdef defs + 16)"
    by (elim exE conjE) (rule that)
  have eqs: "t_db = pg_database_oid defs" "t_ts = pg_tablespace_oid defs"
    "t_attr = pg_attribute_oid defs" "t_ns = pg_namespace_oid defs"
    "t_class = pg_class_oid defs" "t_attrdef = pg_attrdef_oid defs"
    "g = pg_global_oid defs" "d = pg_default_oid defs"
    "cat = pg_catalog_oid defs" "pub = public_oid defs"
    using e by (simp_all add: h1 h2 h3 h4 h5 h6)
  show thesis
    using r dist maps misc o h1 h2 h3 h4 h5 h6 unfolding eqs
    by (rule that)
qed

text \<open>
  Claim C5. For every list of unused columns, \<open>SetUnusedColumns\<close> appends \<open>false\<close> for
  every boolean column, \<open>0\<close> for every integer column and null for every varchar column,
  in column order. When some column has another type it throws the unsupported-type
  exception at the first such column; the vector then holds, after what it held before,
  the defaults of the columns in front of that column and nothing else.
\<close>

theorem SetUnusedColumns_defaults:
  "SetUnusedColumns vec cols =
     (if list_all has_default cols then (Inr (), vec @ map default_of cols)
      else (Inl (NotImplemented ''unsupported type in SetUnusedSchemaColumns (by vec)''),
            vec @ map default_of (takeWhile has_default cols)))"
  by (simp add: SetUnusedColumns_all SetUnusedColumns_stop)

theorem SetUnusedColumns_defaults_witness:
  "SetUnusedColumns [IntegerValue 7]
     [\<lparr>col_name = ''a'', type_id = BOOLEAN\<rparr>, \<lparr>col_name = ''b'', type_id = INTEGER\<rparr>,
      \<lparr>col_name = ''c'', type_id = VARCHAR\<rparr>] =
     (Inr (), [IntegerValue 7, BooleanValue False, IntegerValue 0, NullValue VARCHAR]) \<and>
   SetUnusedColumns [IntegerValue 7]
     [\<lparr>col_name = ''a'', type_id = INTEGER\<rparr>, \<lparr>col_name = ''b'', type_id = DECIMAL\<rparr>,
      \<lparr>col_name = ''c'', type_id = BOOLEAN\<rparr>] =
     (Inl (NotImplemented ''unsupported type in SetUnusedSchemaColumns (by vec)''),
      [IntegerValue 7, IntegerValue 0])"
  using SetUnusedColumns_defaults [of "[IntegerValue 7]"
      "[\<lparr>col_name = ''a'', type_id = BOOLEAN\<rparr>, \<lparr>col_name = ''b'', type_id = INTEGER\<rparr>,
        \<lparr>col_name = ''c'', type_id = VARCHAR\<rparr>]"]
    SetUnusedColumns_defaults [of "[IntegerValue 7]"
      "[\<lparr>col_name = ''a'', type_id = INTEGER\<rparr>, \<lparr>col_name = ''b'', type_id = DECIMAL\<rparr>,
        \<lparr>col_name = ''c'', type_id = BOOLEAN\<rparr>]"]
  by (simp add: has_default_def default_of_def)

subsection \<open>The identifier allocator\<close>

lemma GetNextOid_calls_eq:
  "GetNextOid_calls n s = map (\<lambda>i. oid_' s + of_nat i) [0..<n]"
proof (induction n arbitrary: s)
  case 0
  then show ?case by simp
next
  case (Suc n)
  have "[0..<Suc n] = 0 # map Suc [0..<n]"
    by (simp add: map_Suc_upt upt_conv_Cons)
  then show ?case
    by (simp add: GetNextOid_def Suc.IH add.assoc add.commute del: upt_Suc)
qed

lemma unat_oid_plus:
  "unat (x :: 32 word) + i < 2 ^ 32 \<Longrightarrow> unat (x + of_nat i) = unat x + i"
  by (simp add: unat_word_ariths unat_of_nat)

lemma GetNextOid_calls_sorted_iff:
  "sorted_wrt (<) (GetNextOid_calls n s) \<longleftrightarrow> n \<le> 2 ^ 32 - unat (oid_' s)"
proof
  assume b: "n \<le> 2 ^ 32 - unat (oid_' s)"
  have lt: "unat (oid_' s) < 2 ^ 32" using unsigned_less [of "oid_' s"] by simp
  show "sorted_wrt (<) (GetNextOid_calls n s)"
    unfolding GetNextOid_calls_eq sorted_wrt_iff_nth_less
  proof (intro allI impI)
    fix i j assume "i < j" and "j < length (map (\<lambda>i. oid_' s + word_of_nat i) [0..<n])"
    then have ij: "i < j" "j < n" by simp_all
    then have "unat (oid_' s) + i < 2 ^ 32" "unat (oid_' s) + j < 2 ^ 32" using b lt by linarith+
    then have "unat (oid_' s + of_nat i) < unat (oid_' s + of_nat j)"
      using ij by (simp add: unat_oid_plus)
    then show "map (\<lambda>i. oid_' s + word_of_nat i) [0..<n] ! i <
               map (\<lambda>i. oid_' s + word_of_nat i) [0..<n] ! j"
      using ij by (simp add: word_less_nat_alt)
  qed
next
  assume srt: "sorted_wrt (<) (GetNextOid_calls n s)"
  show "n \<le> 2 ^ 32 - unat (oid_' s)"
  proof (rule ccontr)
    assume "\<not> n \<le> 2 ^ 32 - unat (oid_' s)"
    then have big: "2 ^ 32 - unat (oid_' s) < n" by simp
    have lt: "unat (oid_' s) < 2 ^ 32" using unsigned_less [of "oid_' s"] by simp
    define j where "j = 2 ^ 32 - unat (oid_' s)"
    have j: "0 < j" "j < n" using big lt by (simp_all add: j_def)
    have wrap: "oid_' s + of_nat j = 0"
    proof -
      have "unat (oid_' s + of_nat j) = (unat (oid_' s) + j mod 2 ^ 32) mod 2 ^ 32"
        by (simp add: unat_word_ariths unat_of_nat)
      also have "\<dots> = (unat (oid_' s) + j) mod 2 ^ 32" by (simp add: mod_simps)
      also have "unat (oid_' s) + j = 2 ^ 32" using lt by (simp add: j_def)
      finally have "unat (oid_' s + of_nat j) = 0" by simp
      then show ?thesis by (simp add: unat_eq_zero)
    qed
    have len: "length (GetNextOid_calls n s) = n"
      by (simp add: GetNextOid_calls_eq)
    have "GetNextOid_calls n s ! 0 < GetNextOid_calls n s ! j"
      using srt j len sorted_wrt_nth_less [of "(<)" "GetNextOid_calls n s" 0 j] by simp
    moreover have "GetNextOid_calls n s ! 0 = oid_' s"
      "GetNextOid_calls n s ! j = oid_' s + of_nat j"
      using j by (simp_all add: GetNextOid_calls_eq)
    ultimately show False using wrap by simp
  qed
qed

lemma GetNextOid_calls_distinct_iff:
  "distinct (GetNextOid_calls n s) \<longleftrightarrow> n \<le> 2 ^ 32"
proof
  assume n: "n \<le> 2 ^ 32"
  have "inj_on (\<lambda>i. oid_' s + of_nat i) (set [0..<n])"
  proof (rule inj_onI)
    fix i j assume "i \<in> set [0..<n]" "j \<in> set [0..<n]"
      and e: "oid_' s + of_nat i = oid_' s + of_nat j"
    then have "i < 2 ^ 32" "j < 2 ^ 32" using n by simp_all
    moreover from e have "(of_nat i :: 32 word) = of_nat j" by simp
    ultimately show "i = j"
      by (simp add: word_of_nat_eq_iff take_bit_nat_eq_self)
  qed
  then show "distinct (GetNextOid_calls n s)"
    by (simp add: GetNextOid_calls_eq distinct_map)
next
  assume d: "distinct (GetNextOid_calls n s)"
  show "n \<le> 2 ^ 32"
  proof (rule ccontr)
    assume "\<not> n \<le> 2 ^ 32"
    then have big: "(2 :: nat) ^ 32 < n" by simp
    have len: "length (GetNextOid_calls n s) = n"
      by (simp add: GetNextOid_calls_eq)
    have "(of_nat (2 ^ 32) :: 32 word) = 0" by simp
    then have "GetNextOid_calls n s ! 0 = GetNextOid_calls n s ! (2 ^ 32)"
      using big by (simp add: GetNextOid_calls_eq)
    moreover have "GetNextOid_calls n s ! 0 \<noteq> GetNextOid_calls n s ! (2 ^ 32)"
      using d big len nth_eq_iff_index_eq [of "GetNextOid_calls n s" 0 "2 ^ 32"] by simp
    ultimately show False by simp
  qed
qed

text \<open>
  Claim C4, as amended. The counter is a \<^verbatim>\<open>uint32_t\<close>. For \<open>n\<close> sequential calls of
  \<open>GetNextOid\<close> from a counter that stands at \<open>c\<close> (the start constant, for a fresh
  catalog), the \<open>n\<close> returned values are strictly increasing exactly when \<open>n \<le> 2^32 - c\<close>,
  and they are pairwise distinct exactly when \<open>n \<le> 2^32\<close>.
\<close>

theorem GetNextOid_increasing:
  "(sorted_wrt (<) (GetNextOid_calls n s) \<longleftrightarrow> n \<le> 2 ^ 32 - unat (oid_' s)) \<and>
   (distinct (GetNextOid_calls n s) \<longleftrightarrow> n \<le> 2 ^ 32) \<and>
   length (GetNextOid_calls n s) = n"
  by (simp add: GetNextOid_calls_sorted_iff GetNextOid_calls_distinct_iff)
     (simp add: GetNextOid_calls_eq)

theorem GetNextOid_increasing_witness:
  "GetNextOid_calls 3 (Catalog_init example_defs) = [1001, 1002, 1003] \<and>
   sorted_wrt (<) (GetNextOid_calls 3 (Catalog_init example_defs)) \<and>
   distinct (GetNextOid_calls 3 (Catalog_init example_defs))"
proof -
  have b: "(3::nat) \<le> 2 ^ 32 - unat (oid_' (Catalog_init example_defs))"
    by (simp add: Catalog_init_def example_defs_def)
  have v: "GetNextOid_calls 3 (Catalog_init example_defs) = [1001, 1002, 1003]"
    by (simp add: GetNextOid_calls_eq Catalog_init_def example_defs_def upt_rec)
  show ?thesis
    using b v GetNextOid_increasing [of 3 "Catalog_init example_defs"] by simp
qed

text \<open>
  The claim as stated, for every number of calls, fails. From the start constant 1001 the
  call number \<open>2^32 - 1001\<close> (counting from 0) returns 0, which is below the first value,
  though the values are still pairwise distinct; and the call number \<open>2^32\<close> returns the
  first value again.
\<close>

theorem GetNextOid_counterexample:
  "\<not> sorted_wrt (<) (GetNextOid_calls (2 ^ 32 - 1000) (Catalog_init example_defs)) \<and>
   distinct (GetNextOid_calls (2 ^ 32 - 1000) (Catalog_init example_defs)) \<and>
   \<not> distinct (GetNextOid_calls (2 ^ 32 + 1) (Catalog_init example_defs))"
  by (simp add: GetNextOid_calls_sorted_iff GetNextOid_calls_distinct_iff Catalog_init_def
      example_defs_def)

subsection \<open>The concrete catalog\<close>

lemma example_ok: "defs_ok example_defs"
  by (simp add: defs_ok_def example_defs_def has_default_def n_db_def n_ts_def n_ns_def
      n_class_def n_attrdef_def)

lemma example_oids:
  "pg_database_oid example_defs = 1001" "pg_tablespace_oid example_defs = 1007"
  "pg_global_oid example_defs = 1012" "pg_default_oid example_defs = 1013"
  "pg_attribute_oid example_defs = 1014" "pg_namespace_oid example_defs = 1021"
  "pg_catalog_oid example_defs = 1024" "public_oid example_defs = 1025"
  "pg_class_oid example_defs = 1026" "pg_attrdef_oid example_defs = 1032"
  "nth_oid (START_OID example_defs) (n_db example_defs + n_ts example_defs + n_ns example_defs +
     n_class example_defs + n_attrdef example_defs + 16) = 1035"
  "DEFAULT_DATABASE_OID example_defs = 1"
  by (simp_all add: oid_defs nth_oid_def example_defs_def)

subsection \<open>Registry lookups\<close>

text \<open>
  Claim C3, as amended. \<open>GetDatabaseCatalog\<close> by identifier and by name returns the registered
  relation exactly when the database, the name and the table identifier are all present.
  When one of them is absent it returns nothing: \<^verbatim>\<open>unordered_map::at\<close> throws
  \<^verbatim>\<open>std::out_of_range\<close>, the only failure there is. The lookups read inside the maps only
  and change no state.
\<close>

theorem GetDatabaseCatalog_throws:
  "(GetDatabaseCatalog s db t = Inr p \<longleftrightarrow>
      (\<exists>tables. map_' s db = Some tables \<and> tables t = Some p)) \<and>
   (GetDatabaseCatalog s db t = Inl e \<longleftrightarrow>
      e = OutOfRange \<and> (map_' s db = None \<or> (\<exists>tables. map_' s db = Some tables \<and> tables t = None))) \<and>
   (GetDatabaseCatalog_name s db n = Inr p \<longleftrightarrow>
      (\<exists>names oid tables. name_map_' s db = Some names \<and> names n = Some oid \<and>
         map_' s db = Some tables \<and> tables oid = Some p)) \<and>
   (GetDatabaseCatalog_name s db n = Inl e \<longleftrightarrow>
      e = OutOfRange \<and> (\<nexists>names oid tables. name_map_' s db = Some names \<and> names n = Some oid \<and>
         map_' s db = Some tables \<and> tables oid \<noteq> None))"
  by (auto simp: GetDatabaseCatalog_def GetDatabaseCatalog_name_def at_def
           split: option.splits sum.splits)

text \<open>
  The claim as stated, a not-found value returned to the caller, fails: on the
  bootstrapped catalog a missing name, a missing table identifier and a missing database
  each end in the exception.
\<close>

theorem GetDatabaseCatalog_counterexample:
  "fst (Catalog example_defs) = Inr () \<and>
   GetDatabaseCatalog_name (snd (Catalog example_defs)) 1 ''no_such_table'' = Inl OutOfRange \<and>
   GetDatabaseCatalog (snd (Catalog example_defs)) 1 7 = Inl OutOfRange \<and>
   GetDatabaseCatalog (snd (Catalog example_defs)) 2 1001 = Inl OutOfRange"
proof -
  from Catalog_booted [OF example_ok] obtain s where
    "Catalog example_defs = (Inr (), s)"
    "map_' s = [DEFAULT_DATABASE_OID example_defs \<mapsto>
       [pg_database_oid example_defs \<mapsto> 1, pg_tablespace_oid example_defs \<mapsto> 2,
        pg_attribute_oid example_defs \<mapsto> 3, pg_namespace_oid example_defs \<mapsto> 4,
        pg_class_oid example_defs \<mapsto> 5, pg_attrdef_oid example_defs \<mapsto> 6]]"
    "name_map_' s = [DEFAULT_DATABASE_OID example_defs \<mapsto>
       [''pg_database'' \<mapsto> pg_database_oid example_defs,
        ''pg_tablespace'' \<mapsto> pg_tablespace_oid example_defs,
        ''pg_attribute'' \<mapsto> pg_attribute_oid example_defs,
        ''pg_namespace'' \<mapsto> pg_namespace_oid example_defs,
        ''pg_class'' \<mapsto> pg_class_oid example_defs,
        ''pg_attrdef'' \<mapsto> pg_attrdef_oid example_defs]]"
    by metis
  then show ?thesis
    by (simp add: example_oids GetDatabaseCatalog_def GetDatabaseCatalog_name_def at_def)
qed

lemma example_booted:
  obtains s c_db c_ts c_attr c_ns c_class c_attrdef attr_rows where
    "Catalog example_defs = (Inr (), s)"
    "map_' s = [1 \<mapsto> [1001 \<mapsto> 1, 1007 \<mapsto> 2, 1014 \<mapsto> 3, 1021 \<mapsto> 4, 1026 \<mapsto> 5, 1032 \<mapsto> 6]]"
    "name_map_' s = [1 \<mapsto>
       [''pg_database'' \<mapsto> 1001, ''pg_tablespace'' \<mapsto> 1007, ''pg_attribute'' \<mapsto> 1014,
        ''pg_namespace'' \<mapsto> 1021, ''pg_class'' \<mapsto> 1026, ''pg_attrdef'' \<mapsto> 1032]]"
    "pg_database_' s = 1" "pg_tablespace_' s = 2" "next_addr s = 7"
    "deleted s = []" "begun s = 1" "committed s = [0]"
    "dom (heap s) = {1, 2, 3, 4, 5, 6}"
    "oid_' s = 1035"
    "heap s 1 = Some \<lparr>t_oid = 1001, t_columns = c_db, t_created = True,
       t_rows = [[IntegerValue 1, VarcharValue ''terrier'', IntegerValue 0, NullValue VARCHAR,
                  BooleanValue False]]\<rparr>"
    "heap s 2 = Some \<lparr>t_oid = 1007, t_columns = c_ts, t_created = True,
       t_rows = [[IntegerValue 1012, VarcharValue ''pg_global'', IntegerValue 0, NullValue VARCHAR],
                 [IntegerValue 1013, VarcharValue ''pg_default'', IntegerValue 0,
                  NullValue VARCHAR]]\<rparr>"
    "heap s 3 = Some \<lparr>t_oid = 1014, t_columns = c_attr, t_created = True, t_rows = attr_rows\<rparr>"
    "heap s 4 = Some \<lparr>t_oid = 1021, t_columns = c_ns, t_created = True,
       t_rows = [[IntegerValue 1024, VarcharValue ''pg_catalog''],
                 [IntegerValue 1025, VarcharValue ''public'']]\<rparr>"
    "heap s 5 = Some \<lparr>t_oid = 1026, t_columns = c_class, t_created = True,
       t_rows = [[BigIntValue 1, IntegerValue 1001, VarcharValue ''pg_database'',
                  IntegerValue 1024, IntegerValue 1012],
                 [BigIntValue 2, IntegerValue 1007, VarcharValue ''pg_tablespace'',
                  IntegerValue 1024, IntegerValue 1012],
                 [BigIntValue 4, IntegerValue 1021, VarcharValue ''pg_namespace'',
                  IntegerValue 1024, IntegerValue 1013],
                 [BigIntValue 5, IntegerValue 1026, VarcharValue ''pg_class'',
                  IntegerValue 1024, IntegerValue 1013],
                 [BigIntValue 3, IntegerValue 1014, VarcharValue ''pg_attribute'',
                  IntegerValue 1024, IntegerValue 1013]]\<rparr>"
    "heap s 6 = Some \<lparr>t_oid = 1032, t_columns = c_attrdef, t_created = True, t_rows = []\<rparr>"
proof -
  have d: "map default_of (DatabaseHandle_unused_schema_cols example_defs) =
             [IntegerValue 0, NullValue VARCHAR, BooleanValue False]"
    "map default_of (pg_tablespace_unused_cols example_defs) = [IntegerValue 0, NullValue VARCHAR]"
    "map default_of (NamespaceHandle_unused_schema_cols example_defs) = []"
    "map default_of (ClassHandle_unused_schema_cols example_defs) = []"
    by (simp_all add: example_defs_def default_of_def)
  show thesis
    by (rule Catalog_booted [OF example_ok], rule that)
       (simp_all only: example_oids d class_row_def append.simps)
qed

subsection \<open>Creating a database\<close>

lemmas create_defs = CreateDatabase_def M_defs GetNextOid_def AddEntryToPGDatabase_def
  InsertRow_def map_put_def

lemma released_empty [simp]: "released Map.empty s = s"
  by (simp add: released_def)

lemma CreateDatabase_run:
  assumes "list_all has_default (DatabaseHandle_unused_schema_cols defs)"
    and "heap s (pg_database_' s) = Some t" and "t_created t"
  shows "CreateDatabase defs name s =
    (Inr (),
     released (case map_' s (oid_' s) of None \<Rightarrow> Map.empty | Some old \<Rightarrow> old)
       (s\<lparr>oid_' := oid_' s + 1,
          heap := (heap s)(pg_database_' s \<mapsto>
             t\<lparr>t_rows := t_rows t @
                [[IntegerValue (oid_' s), VarcharValue name] @
                 map default_of (DatabaseHandle_unused_schema_cols defs)]\<rparr>),
          map_' := (map_' s)(oid_' s \<mapsto> Map.empty)\<rparr>))"
  using assms
  by (simp add: create_defs filled_all)

lemma oid_less_next: "(x :: oid_t) \<le> c \<Longrightarrow> c \<noteq> - 1 \<Longrightarrow> x < c + 1"
  using inc_less_eq_self_iff_eq [of c] by auto

lemma CreateDatabase_fresh:
  assumes "list_all has_default (DatabaseHandle_unused_schema_cols defs)"
    and "heap s (pg_database_' s) = Some t" and "t_created t"
    and "oids_below s"
  shows "oid_' s \<notin> oids_in_use s"
    and "heap (snd (CreateDatabase defs name s)) = (heap s)(pg_database_' s \<mapsto>
             t\<lparr>t_rows := t_rows t @
                [[IntegerValue (oid_' s), VarcharValue name] @
                 map default_of (DatabaseHandle_unused_schema_cols defs)]\<rparr>)"
    and "oids_in_use (snd (CreateDatabase defs name s)) = insert (oid_' s) (oids_in_use s)"
    and "oid_' s \<noteq> - 1 \<Longrightarrow> oids_below (snd (CreateDatabase defs name s))"
proof -
  show fresh: "oid_' s \<notin> oids_in_use s"
    using assms(4) by (auto simp: oids_below_def)
  then have none: "map_' s (oid_' s) = None"
    by (auto simp: oids_in_use_def)
  let ?s1 = "s\<lparr>oid_' := oid_' s + 1,
          heap := (heap s)(pg_database_' s \<mapsto>
             t\<lparr>t_rows := t_rows t @
                [[IntegerValue (oid_' s), VarcharValue name] @
                 map default_of (DatabaseHandle_unused_schema_cols defs)]\<rparr>),
          map_' := (map_' s)(oid_' s \<mapsto> Map.empty)\<rparr>"
  have run: "CreateDatabase defs name s = (Inr (), ?s1)"
    using CreateDatabase_run [OF assms(1-3), of name] none by simp
  show "heap (snd (CreateDatabase defs name s)) = (heap s)(pg_database_' s \<mapsto>
             t\<lparr>t_rows := t_rows t @
                [[IntegerValue (oid_' s), VarcharValue name] @
                 map default_of (DatabaseHandle_unused_schema_cols defs)]\<rparr>)"
    by (simp add: run)
  show use: "oids_in_use (snd (CreateDatabase defs name s)) = insert (oid_' s) (oids_in_use s)"
    using assms(2) by (simp add: run oids_in_use_def database_oids_def)
  show "oids_below (snd (CreateDatabase defs name s))" if "oid_' s \<noteq> - 1"
    unfolding oids_below_def use
    using assms(4) that by (auto simp: run oids_below_def intro!: oid_less_next less_imp_le)
qed

text \<open>
  Claim C6, as amended. Where the unused columns of \<^verbatim>\<open>pg_database\<close> all have defaults and
  \<^verbatim>\<open>pg_database_\<close> points to a created table, \<open>CreateDatabase\<close> of any name draws the next
  identifier from the allocator, appends exactly one row to \<^verbatim>\<open>pg_database\<close> (that
  identifier, the name, the defaults), assigns the empty table map to \<^verbatim>\<open>map_[oid]\<close>
  (destroying a table map that is there, with the tables only it holds), leaves
  \<^verbatim>\<open>name_map_\<close> alone, and returns nothing: its return type is \<^verbatim>\<open>void\<close>. Where every
  database identifier in use is below the counter, the identifier is fresh (no row of
  \<^verbatim>\<open>pg_database\<close> and no key of the registry has it), nothing is destroyed, and, unless
  the counter stands at its last value, every identifier in use is again below the counter.
\<close>

theorem CreateDatabase_effect:
  assumes "list_all has_default (DatabaseHandle_unused_schema_cols defs)"
    and "heap s (pg_database_' s) = Some t" and "t_created t"
  shows "CreateDatabase defs name s =
    (Inr (),
     released (case map_' s (oid_' s) of None \<Rightarrow> Map.empty | Some old \<Rightarrow> old)
       (s\<lparr>oid_' := oid_' s + 1,
          heap := (heap s)(pg_database_' s \<mapsto>
             t\<lparr>t_rows := t_rows t @
                [[IntegerValue (oid_' s), VarcharValue name] @
                 map default_of (DatabaseHandle_unused_schema_cols defs)]\<rparr>),
          map_' := (map_' s)(oid_' s \<mapsto> Map.empty)\<rparr>)) \<and>
    (oids_below s \<longrightarrow>
       oid_' s \<notin> oids_in_use s \<and>
       snd (CreateDatabase defs name s) =
         s\<lparr>oid_' := oid_' s + 1,
           heap := (heap s)(pg_database_' s \<mapsto>
             t\<lparr>t_rows := t_rows t @
                [[IntegerValue (oid_' s), VarcharValue name] @
                 map default_of (DatabaseHandle_unused_schema_cols defs)]\<rparr>),
           map_' := (map_' s)(oid_' s \<mapsto> Map.empty)\<rparr> \<and>
       (oid_' s \<noteq> - 1 \<longrightarrow> oids_below (snd (CreateDatabase defs name s))))"
proof (intro conjI impI)
  show "CreateDatabase defs name s =
    (Inr (),
     released (case map_' s (oid_' s) of None \<Rightarrow> Map.empty | Some old \<Rightarrow> old)
       (s\<lparr>oid_' := oid_' s + 1,
          heap := (heap s)(pg_database_' s \<mapsto>
             t\<lparr>t_rows := t_rows t @
                [[IntegerValue (oid_' s), VarcharValue name] @
                 map default_of (DatabaseHandle_unused_schema_cols defs)]\<rparr>),
          map_' := (map_' s)(oid_' s \<mapsto> Map.empty)\<rparr>))"
    by (rule CreateDatabase_run [OF assms])
next
  assume b: "oids_below s"
  show fresh: "oid_' s \<notin> oids_in_use s"
    by (rule CreateDatabase_fresh(1) [OF assms b])
  then have "map_' s (oid_' s) = None"
    by (auto simp: oids_in_use_def)
  then show "snd (CreateDatabase defs name s) =
         s\<lparr>oid_' := oid_' s + 1,
           heap := (heap s)(pg_database_' s \<mapsto>
             t\<lparr>t_rows := t_rows t @
                [[IntegerValue (oid_' s), VarcharValue name] @
                 map default_of (DatabaseHandle_unused_schema_cols defs)]\<rparr>),
           map_' := (map_' s)(oid_' s \<mapsto> Map.empty)\<rparr>"
    by (simp add: CreateDatabase_run [OF assms])
  show "oids_below (snd (CreateDatabase defs name s))" if "oid_' s \<noteq> - 1"
    by (rule CreateDatabase_fresh(4) [OF assms b that])
qed

lemma example_below:
  assumes "Catalog example_defs = (Inr (), s)"
  shows "oids_below s" "oids_in_use s = {1}"
proof -
  obtain s' c_db where b: "Catalog example_defs = (Inr (), s')"
    "map_' s' = [1 \<mapsto> [1001 \<mapsto> 1, 1007 \<mapsto> 2, 1014 \<mapsto> 3, 1021 \<mapsto> 4, 1026 \<mapsto> 5, 1032 \<mapsto> 6]]"
    "name_map_' s' = [1 \<mapsto>
       [''pg_database'' \<mapsto> 1001, ''pg_tablespace'' \<mapsto> 1007, ''pg_attribute'' \<mapsto> 1014,
        ''pg_namespace'' \<mapsto> 1021, ''pg_class'' \<mapsto> 1026, ''pg_attrdef'' \<mapsto> 1032]]"
    "pg_database_' s' = 1" "oid_' s' = 1035"
    "heap s' 1 = Some \<lparr>t_oid = 1001, t_columns = c_db, t_created = True,
       t_rows = [[IntegerValue 1, VarcharValue ''terrier'', IntegerValue 0, NullValue VARCHAR,
                  BooleanValue False]]\<rparr>"
    by (rule example_booted)
  with assms have s: "s' = s" by simp
  show u: "oids_in_use s = {1}"
    using b(2-) unfolding s by (simp add: oids_in_use_def database_oids_def)
  show "oids_below s"
    using b(5) unfolding s by (simp add: oids_below_def u)
qed

theorem CreateDatabase_effect_witness:
  "fst (Catalog example_defs) = Inr () \<and>
   oids_below (snd (Catalog example_defs)) \<and>
   oids_in_use (snd (Catalog example_defs)) = {1} \<and>
   fst (CreateDatabase example_defs ''foo'' (snd (Catalog example_defs))) = Inr () \<and>
   oid_' (snd (CreateDatabase example_defs ''foo'' (snd (Catalog example_defs)))) = 1036 \<and>
   map_' (snd (CreateDatabase example_defs ''foo'' (snd (Catalog example_defs)))) 1035 =
     Some Map.empty \<and>
   name_map_' (snd (CreateDatabase example_defs ''foo'' (snd (Catalog example_defs)))) 1035 =
     None \<and>
   table_rows (snd (CreateDatabase example_defs ''foo'' (snd (Catalog example_defs)))) 1
     ''pg_database'' =
     Some [[IntegerValue 1, VarcharValue ''terrier'', IntegerValue 0, NullValue VARCHAR,
            BooleanValue False],
           [IntegerValue 1035, VarcharValue ''foo'', IntegerValue 0, NullValue VARCHAR,
            BooleanValue False]] \<and>
   dom (heap (snd (CreateDatabase example_defs ''foo'' (snd (Catalog example_defs))))) =
     {1, 2, 3, 4, 5, 6} \<and>
   oids_below (snd (CreateDatabase example_defs ''foo'' (snd (Catalog example_defs))))"
proof -
  have u: "list_all has_default (DatabaseHandle_unused_schema_cols example_defs)"
    "map default_of (DatabaseHandle_unused_schema_cols example_defs) =
       [IntegerValue 0, NullValue VARCHAR, BooleanValue False]"
    by (simp_all add: example_defs_def has_default_def default_of_def)
  obtain s c_db where b: "Catalog example_defs = (Inr (), s)"
    "map_' s = [1 \<mapsto> [1001 \<mapsto> 1, 1007 \<mapsto> 2, 1014 \<mapsto> 3, 1021 \<mapsto> 4, 1026 \<mapsto> 5, 1032 \<mapsto> 6]]"
    "name_map_' s = [1 \<mapsto>
       [''pg_database'' \<mapsto> 1001, ''pg_tablespace'' \<mapsto> 1007, ''pg_attribute'' \<mapsto> 1014,
        ''pg_namespace'' \<mapsto> 1021, ''pg_class'' \<mapsto> 1026, ''pg_attrdef'' \<mapsto> 1032]]"
    "pg_database_' s = 1" "oid_' s = 1035"
    "heap s 1 = Some \<lparr>t_oid = 1001, t_columns = c_db, t_created = True,
       t_rows = [[IntegerValue 1, VarcharValue ''terrier'', IntegerValue 0, NullValue VARCHAR,
                  BooleanValue False]]\<rparr>"
    "dom (heap s) = {1, 2, 3, 4, 5, 6}"
    by (rule example_booted)
  note below = example_below [OF b(1)]
  have t: "heap s (pg_database_' s) = Some \<lparr>t_oid = 1001, t_columns = c_db, t_created = True,
       t_rows = [[IntegerValue 1, VarcharValue ''terrier'', IntegerValue 0, NullValue VARCHAR,
                  BooleanValue False]]\<rparr>"
    by (simp add: b(4,6))
  have d: "insert 1 (dom (heap s)) = {1, 2, 3, 4, 5, 6}"
    unfolding b(7) by simp
  show ?thesis
    using CreateDatabase_effect [of example_defs s _ "''foo''", OF u(1) t] below b(2-5) u(2) d
    by (simp add: b(1) table_rows_def GetDatabaseCatalog_name_def GetDatabaseCatalog_def at_def
        cong: conj_cong)
qed

lemma GetNextOid_repeated:
  "forM (replicate n ()) (\<lambda>u. bindM GetNextOid (\<lambda>x. ret ())) s =
     (Inr (), s\<lparr>oid_' := oid_' s + of_nat n\<rparr>)"
proof (induction n arbitrary: s)
  case 0
  show ?case by (simp add: M_defs)
next
  case (Suc n)
  let ?f = "\<lambda>u :: unit. bindM GetNextOid (\<lambda>x. ret ())"
  have step: "?f () s = (Inr (), s\<lparr>oid_' := oid_' s + 1\<rparr>)"
    by (simp add: M_defs GetNextOid_def)
  have "forM (replicate (Suc n) ()) ?f s = forM (replicate n ()) ?f (s\<lparr>oid_' := oid_' s + 1\<rparr>)"
    by (simp only: replicate_Suc forM_Cons_run step prod.case sum.case)
  also have "\<dots> = (Inr (), s\<lparr>oid_' := oid_' s + 1\<rparr>
      \<lparr>oid_' := oid_' (s\<lparr>oid_' := oid_' s + 1\<rparr>) + of_nat n\<rparr>)"
    by (rule Suc.IH)
  also have "\<dots> = (Inr (), s\<lparr>oid_' := oid_' s + of_nat (Suc n)\<rparr>)"
    by (simp add: add.assoc)
  finally show ?case .
qed

text \<open>
  The claim as stated fails in two places. The new identifier is not returned: two calls
  that allocate the identifiers 1035 and 1036 return the same value, the unit. And the
  identifier is not fresh in every state: after \<open>2^32 - 1034\<close> further allocations the
  counter of the bootstrapped catalog stands at 1, the identifier of the default database;
  \<open>CreateDatabase\<close> then adds a second row with the identifier 1 and replaces the table map
  of the default database by the empty one, which destroys \<^verbatim>\<open>pg_attribute\<close>, a table
  that only this map holds.
\<close>

theorem CreateDatabase_counterexample:
  "fst (CreateDatabase example_defs ''foo'' (snd (Catalog example_defs))) = Inr () \<and>
   fst (CreateDatabase example_defs ''foo''
          (snd (CreateDatabase example_defs ''foo'' (snd (Catalog example_defs))))) = Inr () \<and>
   map_option (map hd)
     (table_rows (snd (CreateDatabase example_defs ''foo''
          (snd (CreateDatabase example_defs ''foo'' (snd (Catalog example_defs))))))
        1 ''pg_database'') =
     Some [IntegerValue 1, IntegerValue 1035, IntegerValue 1036] \<and>
   forM (replicate (2 ^ 32 - 1034) ()) (\<lambda>u. bindM GetNextOid (\<lambda>x. ret ()))
     (snd (Catalog example_defs)) = (Inr (), (snd (Catalog example_defs))\<lparr>oid_' := 1\<rparr>) \<and>
   fst (CreateDatabase example_defs ''foo'' ((snd (Catalog example_defs))\<lparr>oid_' := 1\<rparr>)) =
     Inr () \<and>
   map_option (\<lambda>t. map hd (t_rows t))
     (heap (snd (CreateDatabase example_defs ''foo''
        ((snd (Catalog example_defs))\<lparr>oid_' := 1\<rparr>))) 1) =
     Some [IntegerValue 1, IntegerValue 1] \<and>
   map_' (snd (CreateDatabase example_defs ''foo''
        ((snd (Catalog example_defs))\<lparr>oid_' := 1\<rparr>))) = [1 \<mapsto> Map.empty] \<and>
   map_option t_oid (heap (snd (Catalog example_defs)) 3) = Some 1014 \<and>
   heap (snd (CreateDatabase example_defs ''foo''
        ((snd (Catalog example_defs))\<lparr>oid_' := 1\<rparr>))) 3 = None"
proof -
  obtain s c_db c_attr attr_rows where b: "Catalog example_defs = (Inr (), s)"
    "map_' s = [1 \<mapsto> [1001 \<mapsto> 1, 1007 \<mapsto> 2, 1014 \<mapsto> 3, 1021 \<mapsto> 4, 1026 \<mapsto> 5, 1032 \<mapsto> 6]]"
    "name_map_' s = [1 \<mapsto>
       [''pg_database'' \<mapsto> 1001, ''pg_tablespace'' \<mapsto> 1007, ''pg_attribute'' \<mapsto> 1014,
        ''pg_namespace'' \<mapsto> 1021, ''pg_class'' \<mapsto> 1026, ''pg_attrdef'' \<mapsto> 1032]]"
    "pg_database_' s = 1" "pg_tablespace_' s = 2" "oid_' s = 1035"
    "heap s 1 = Some \<lparr>t_oid = 1001, t_columns = c_db, t_created = True,
       t_rows = [[IntegerValue 1, VarcharValue ''terrier'', IntegerValue 0, NullValue VARCHAR,
                  BooleanValue False]]\<rparr>"
    "heap s 3 = Some \<lparr>t_oid = 1014, t_columns = c_attr, t_created = True, t_rows = attr_rows\<rparr>"
    by (rule example_booted)
  have twice: "fst (CreateDatabase example_defs ''foo'' s) = Inr () \<and>
   fst (CreateDatabase example_defs ''foo'' (snd (CreateDatabase example_defs ''foo'' s))) =
     Inr () \<and>
   map_option (map hd)
     (table_rows (snd (CreateDatabase example_defs ''foo''
          (snd (CreateDatabase example_defs ''foo'' s)))) 1 ''pg_database'') =
     Some [IntegerValue 1, IntegerValue 1035, IntegerValue 1036]"
    using b(2-7)
    by (simp add: create_defs filled_def example_defs_def table_rows_def
        GetDatabaseCatalog_name_def GetDatabaseCatalog_def at_def)
  have wrap: "forM (replicate (2 ^ 32 - 1034) ()) (\<lambda>u. bindM GetNextOid (\<lambda>x. ret ())) s =
      (Inr (), s\<lparr>oid_' := 1\<rparr>)"
    by (simp add: GetNextOid_repeated b(6))
  let ?old = "[1001 \<mapsto> 1, 1007 \<mapsto> 2, 1014 \<mapsto> 3, 1021 \<mapsto> 4, 1026 \<mapsto> 5, 1032 \<mapsto> (6 :: addr)]
    :: table_oid_t \<rightharpoonup> addr"
  have ran_old: "ran ?old = {1, 2, 3, 4, 5, 6}"
    by (simp add: ran_map_upd insert_commute)
  let ?rows = "[[IntegerValue 1, VarcharValue ''terrier'', IntegerValue 0, NullValue VARCHAR,
                  BooleanValue False],
                [IntegerValue 1, VarcharValue ''foo'', IntegerValue 0, NullValue VARCHAR,
                  BooleanValue False]]"
  have run: "CreateDatabase example_defs ''foo'' (s\<lparr>oid_' := 1\<rparr>) =
     (Inr (), s\<lparr>oid_' := 2,
          heap := (\<lambda>p. if p \<in> {3, 4, 5, 6} then None
                        else ((heap s)(1 \<mapsto> \<lparr>t_oid = 1001, t_columns = c_db, t_created = True,
                                t_rows = ?rows\<rparr>)) p),
          map_' := [1 \<mapsto> Map.empty]\<rparr>)"
    using b(2-7)
    by (auto simp add: create_defs filled_def example_defs_def released_def owned_def ran_old
        intro!: state.equality ext)
  show ?thesis
    using twice wrap by (simp add: b(1) run b(8))
qed

subsection \<open>Deleting a database\<close>

lemma scan_for_None: "scan_for name i rs = None \<longleftrightarrow> \<not> list_ex (names_row name) rs"
  by (induction rs arbitrary: i) auto

lemma scan_for_append:
  "\<not> list_ex (names_row name) rs \<Longrightarrow>
   scan_for name i (rs @ rs') = scan_for name (i + length rs) rs'"
  by (induction rs arbitrary: i) auto

lemmas lookup_defs = GetDatabaseHandle_def GetDatabaseEntry_def GetEntry_def deref_def

lemmas delete_defs = DeleteDatabase_def M_defs lookup_defs DeleteEntry_def map_erase_def Let_def

lemma DeleteDatabase_no_row:
  assumes "heap s (pg_database_' s) = Some t"
    and "\<not> list_ex (names_row name) (t_rows t)"
  shows "GetDatabaseEntry (GetDatabaseHandle s) name s = (Inr None, s)"
    and "DeleteDatabase name s = (Inl InvalidDereference, s)"
  using assms scan_for_None [of name 0 "t_rows t"]
  by (simp_all add: delete_defs)

lemma create_delete_lookup:
  assumes "list_all has_default (DatabaseHandle_unused_schema_cols defs)"
    and "heap s (pg_database_' s) = Some t" and "t_created t"
    and "\<not> list_ex (names_row name) (t_rows t)"
  shows "\<exists>s1 s2. CreateDatabase defs name s = (Inr (), s1) \<and>
           DeleteDatabase name s1 = (Inr (), s2) \<and>
           GetDatabaseEntry (GetDatabaseHandle s2) name s2 = (Inr None, s2) \<and>
           heap s2 (pg_database_' s2) = Some t \<and>
           map_' s2 (oid_' s) = None \<and> name_map_' s2 (oid_' s) = None"
proof -
  define row where "row = [IntegerValue (oid_' s), VarcharValue name] @
              map default_of (DatabaseHandle_unused_schema_cols defs)"
  define s1 where "s1 = released (case map_' s (oid_' s) of None \<Rightarrow> Map.empty | Some old \<Rightarrow> old)
       (s\<lparr>oid_' := oid_' s + 1,
          heap := (heap s)(pg_database_' s \<mapsto> t\<lparr>t_rows := t_rows t @ [row]\<rparr>),
          map_' := (map_' s)(oid_' s \<mapsto> Map.empty)\<rparr>)"
  have c: "CreateDatabase defs name s = (Inr (), s1)"
    unfolding s1_def row_def by (rule CreateDatabase_run [OF assms(1-3)])
  have s1: "pg_database_' s1 = pg_database_' s"
    "heap s1 (pg_database_' s) = Some (t\<lparr>t_rows := t_rows t @ [row]\<rparr>)"
    "map_' s1 = (map_' s)(oid_' s \<mapsto> Map.empty)" "name_map_' s1 = name_map_' s"
    by (simp_all add: s1_def released_def owned_def)
  have found: "scan_for name 0 (t_rows t @ [row]) =
      Some \<lparr>e_oid = oid_' s, e_slot = length (t_rows t)\<rparr>"
    using assms(4) by (simp add: scan_for_append row_def)
  define s2 where "s2 = s1\<lparr>heap := (heap s1)(pg_database_' s \<mapsto> t),
       map_' := (map_' s)(oid_' s := None),
       name_map_' := (name_map_' s)(oid_' s := None)\<rparr>"
  have d: "DeleteDatabase name s1 = (Inr (), s2)"
    using found by (simp add: delete_defs s1 s2_def)
  have s2: "pg_database_' s2 = pg_database_' s" "heap s2 (pg_database_' s) = Some t"
    "map_' s2 (oid_' s) = None" "name_map_' s2 (oid_' s) = None"
    by (simp_all add: s2_def s1)
  have l: "GetDatabaseEntry (GetDatabaseHandle s2) name s2 = (Inr None, s2)"
    by (rule DeleteDatabase_no_row(1) [where t = t]) (simp_all add: s2 assms(4))
  show ?thesis
    using c d l by (intro exI [of _ s1] exI [of _ s2]) (simp add: s2)
qed

text \<open>
  Claim C7 at the bootstrapped catalog, whose \<^verbatim>\<open>pg_database\<close> holds the one row
  \<open>terrier\<close>. The lookup of the unknown name \<open>nosuch\<close> through the database handle yields no
  entry, and \<open>DeleteDatabase\<close> of that name dereferences the null entry pointer: it does not
  fail with a not-found condition. The other half of the claim holds there: create, then
  delete, then lookup of \<open>foo\<close> finds no entry.
\<close>

theorem DeleteDatabase_unknown_name:
  "fst (Catalog example_defs) = Inr () \<and>
   map_option (map (\<lambda>row. row ! 1))
     (table_rows (snd (Catalog example_defs)) 1 ''pg_database'') =
     Some [VarcharValue ''terrier''] \<and>
   GetDatabaseEntry (GetDatabaseHandle (snd (Catalog example_defs))) ''nosuch''
     (snd (Catalog example_defs)) = (Inr None, snd (Catalog example_defs)) \<and>
   DeleteDatabase ''nosuch'' (snd (Catalog example_defs)) =
     (Inl InvalidDereference, snd (Catalog example_defs)) \<and>
   fst (CreateDatabase example_defs ''foo'' (snd (Catalog example_defs))) = Inr () \<and>
   fst (DeleteDatabase ''foo''
          (snd (CreateDatabase example_defs ''foo'' (snd (Catalog example_defs))))) = Inr () \<and>
   fst (GetDatabaseEntry 1 ''foo''
          (snd (DeleteDatabase ''foo''
             (snd (CreateDatabase example_defs ''foo'' (snd (Catalog example_defs))))))) =
     Inr None"
proof -
  have u: "list_all has_default (DatabaseHandle_unused_schema_cols example_defs)"
    by (simp add: example_defs_def has_default_def)
  obtain s c_db where b: "Catalog example_defs = (Inr (), s)"
    "map_' s = [1 \<mapsto> [1001 \<mapsto> 1, 1007 \<mapsto> 2, 1014 \<mapsto> 3, 1021 \<mapsto> 4, 1026 \<mapsto> 5, 1032 \<mapsto> 6]]"
    "name_map_' s = [1 \<mapsto>
       [''pg_database'' \<mapsto> 1001, ''pg_tablespace'' \<mapsto> 1007, ''pg_attribute'' \<mapsto> 1014,
        ''pg_namespace'' \<mapsto> 1021, ''pg_class'' \<mapsto> 1026, ''pg_attrdef'' \<mapsto> 1032]]"
    "pg_database_' s = 1" "oid_' s = 1035"
    "heap s 1 = Some \<lparr>t_oid = 1001, t_columns = c_db, t_created = True,
       t_rows = [[IntegerValue 1, VarcharValue ''terrier'', IntegerValue 0, NullValue VARCHAR,
                  BooleanValue False]]\<rparr>"
    by (rule example_booted)
  let ?t = "\<lparr>t_oid = 1001, t_columns = c_db, t_created = True,
       t_rows = [[IntegerValue 1, VarcharValue ''terrier'', IntegerValue 0, NullValue VARCHAR,
                  BooleanValue False]]\<rparr>"
  have t: "heap s (pg_database_' s) = Some ?t"
    by (simp add: b(4,6))
  have rows: "map_option (map (\<lambda>row. row ! 1)) (table_rows s 1 ''pg_database'') =
     Some [VarcharValue ''terrier'']"
    by (simp add: table_rows_def GetDatabaseCatalog_name_def GetDatabaseCatalog_def at_def b(2-))
  have unknown: "GetDatabaseEntry (GetDatabaseHandle s) ''nosuch'' s = (Inr None, s)"
    "DeleteDatabase ''nosuch'' s = (Inl InvalidDereference, s)"
    by (rule DeleteDatabase_no_row [OF t], simp)+
  from create_delete_lookup [of example_defs s ?t "''foo''", OF u t]
  obtain s1 s2 where r: "CreateDatabase example_defs ''foo'' s = (Inr (), s1)"
    "DeleteDatabase ''foo'' s1 = (Inr (), s2)"
    "GetDatabaseEntry (GetDatabaseHandle s2) ''foo'' s2 = (Inr None, s2)"
    "heap s2 (pg_database_' s2) = Some ?t"
    by auto
  have "pg_database_' (snd (DeleteDatabase n x)) = pg_database_' x" for n x
    by (simp add: delete_defs released_def split: option.splits)
  moreover have "pg_database_' (snd (CreateDatabase df n x)) = pg_database_' x" for df n x
    by (simp add: create_defs filled_def released_def split: option.splits prod.splits sum.splits)
  ultimately have "GetDatabaseHandle s2 = 1"
    using r(1,2) b(4) by (metis GetDatabaseHandle_def snd_conv)
  with r(3) have "fst (GetDatabaseEntry 1 ''foo'' s2) = Inr None" by simp
  then show ?thesis
    using rows unknown r(1,2) by (simp add: b(1))
qed

subsection \<open>The registry invariant\<close>

lemma CreateDatabase_maps:
  "name_map_' (snd (CreateDatabase defs name s)) = name_map_' s \<and>
   (map_' (snd (CreateDatabase defs name s)) = map_' s \<or>
    map_' (snd (CreateDatabase defs name s)) = (map_' s)(oid_' s \<mapsto> Map.empty))"
  by (simp add: create_defs filled_def released_def split: option.splits prod.splits sum.splits)

lemma DeleteDatabase_maps:
  "(map_' (snd (DeleteDatabase name s)) = map_' s \<and>
    name_map_' (snd (DeleteDatabase name s)) = name_map_' s) \<or>
   (\<exists>oid. map_' (snd (DeleteDatabase name s)) = (map_' s)(oid := None) \<and>
     name_map_' (snd (DeleteDatabase name s)) = (name_map_' s)(oid := None))"
  by (auto simp: delete_defs released_def split: option.splits)

lemma registry_inv_kept:
  assumes "registry_inv s"
    and "\<And>db tables t. map_' s' db = Some tables \<Longrightarrow> t \<in> dom tables \<Longrightarrow>
           map_' s db = Some tables \<and> name_map_' s' db = name_map_' s db"
  shows "registry_inv s'"
  unfolding registry_inv_def
proof (intro allI impI, elim conjE)
  fix db tables t
  assume m: "map_' s' db = Some tables" and t: "t \<in> dom tables"
  from assms(2) [OF m t] have "map_' s db = Some tables" "name_map_' s' db = name_map_' s db"
    by simp_all
  with assms(1) t show "\<exists>names. name_map_' s' db = Some names \<and> (\<exists>!n. names n = Some t)"
    unfolding registry_inv_def by metis
qed

lemma registry_inv_create:
  assumes "registry_inv s"
  shows "registry_inv (snd (CreateDatabase defs name s))"
proof (rule registry_inv_kept [OF assms])
  fix db tables t
  assume "map_' (snd (CreateDatabase defs name s)) db = Some tables" "t \<in> dom tables"
  then show "map_' s db = Some tables \<and>
      name_map_' (snd (CreateDatabase defs name s)) db = name_map_' s db"
    using CreateDatabase_maps [of defs name s] by (auto split: if_splits)
qed

lemma registry_inv_delete:
  assumes "registry_inv s"
  shows "registry_inv (snd (DeleteDatabase name s))"
proof (rule registry_inv_kept [OF assms])
  fix db tables t
  assume "map_' (snd (DeleteDatabase name s)) db = Some tables" "t \<in> dom tables"
  then show "map_' s db = Some tables \<and>
      name_map_' (snd (DeleteDatabase name s)) db = name_map_' s db"
    using DeleteDatabase_maps [of name s] by (auto split: if_splits)
qed

lemma registry_inv_boot:
  assumes "defs_ok defs"
  shows "registry_inv (snd (Catalog defs))"
proof -
  obtain s where b: "Catalog defs = (Inr (), s)"
    "distinct [pg_database_oid defs, pg_tablespace_oid defs, pg_attribute_oid defs,
       pg_namespace_oid defs, pg_class_oid defs, pg_attrdef_oid defs, oid_' s]"
    "map_' s = [DEFAULT_DATABASE_OID defs \<mapsto>
       [pg_database_oid defs \<mapsto> 1, pg_tablespace_oid defs \<mapsto> 2, pg_attribute_oid defs \<mapsto> 3,
        pg_namespace_oid defs \<mapsto> 4, pg_class_oid defs \<mapsto> 5, pg_attrdef_oid defs \<mapsto> 6]]"
    "name_map_' s = [DEFAULT_DATABASE_OID defs \<mapsto>
       [''pg_database'' \<mapsto> pg_database_oid defs, ''pg_tablespace'' \<mapsto> pg_tablespace_oid defs,
        ''pg_attribute'' \<mapsto> pg_attribute_oid defs, ''pg_namespace'' \<mapsto> pg_namespace_oid defs,
        ''pg_class'' \<mapsto> pg_class_oid defs, ''pg_attrdef'' \<mapsto> pg_attrdef_oid defs]]"
    by (rule Catalog_booted [OF assms])
  let ?names = "[''pg_database'' \<mapsto> pg_database_oid defs,
        ''pg_tablespace'' \<mapsto> pg_tablespace_oid defs,
        ''pg_attribute'' \<mapsto> pg_attribute_oid defs, ''pg_namespace'' \<mapsto> pg_namespace_oid defs,
        ''pg_class'' \<mapsto> pg_class_oid defs, ''pg_attrdef'' \<mapsto> pg_attrdef_oid defs]"
  have one: "\<exists>!n. ?names n = Some t"
    if "t \<in> {pg_database_oid defs, pg_tablespace_oid defs, pg_attribute_oid defs,
       pg_namespace_oid defs, pg_class_oid defs, pg_attrdef_oid defs}" for t
  proof -
    from that consider "t = pg_database_oid defs" | "t = pg_tablespace_oid defs"
      | "t = pg_attribute_oid defs" | "t = pg_namespace_oid defs" | "t = pg_class_oid defs"
      | "t = pg_attrdef_oid defs"
      by blast
    then show ?thesis
    proof cases
      case 1
      show ?thesis
        by (rule ex1I [of _ "''pg_database''"]) (use 1 b(2) in \<open>simp_all split: if_splits\<close>)
    next
      case 2
      show ?thesis
        by (rule ex1I [of _ "''pg_tablespace''"]) (use 2 b(2) in \<open>simp_all split: if_splits\<close>)
    next
      case 3
      show ?thesis
        by (rule ex1I [of _ "''pg_attribute''"]) (use 3 b(2) in \<open>simp_all split: if_splits\<close>)
    next
      case 4
      show ?thesis
        by (rule ex1I [of _ "''pg_namespace''"]) (use 4 b(2) in \<open>simp_all split: if_splits\<close>)
    next
      case 5
      show ?thesis
        by (rule ex1I [of _ "''pg_class''"]) (use 5 b(2) in \<open>simp_all split: if_splits\<close>)
    next
      case 6
      show ?thesis
        by (rule ex1I [of _ "''pg_attrdef''"]) (use 6 b(2) in \<open>simp_all split: if_splits\<close>)
    qed
  qed
  have "registry_inv s"
    unfolding registry_inv_def
  proof (intro allI impI, elim conjE)
    fix db tables t
    assume m: "map_' s db = Some tables" and t: "t \<in> dom tables"
    from m have db: "db = DEFAULT_DATABASE_OID defs"
      and tables: "tables = [pg_database_oid defs \<mapsto> 1, pg_tablespace_oid defs \<mapsto> 2,
        pg_attribute_oid defs \<mapsto> 3, pg_namespace_oid defs \<mapsto> 4, pg_class_oid defs \<mapsto> 5,
        pg_attrdef_oid defs \<mapsto> 6]"
      by (simp_all add: b(3) split: if_splits)
    from t have "t \<in> {pg_database_oid defs, pg_tablespace_oid defs, pg_attribute_oid defs,
       pg_namespace_oid defs, pg_class_oid defs, pg_attrdef_oid defs}"
      unfolding tables by (simp add: dom_def split: if_splits)
    from one [OF this] show "\<exists>names. name_map_' s db = Some names \<and> (\<exists>!n. names n = Some t)"
      by (simp add: b(4) db)
  qed
  then show ?thesis by (simp add: b(1))
qed

lemma register_visible:
  "GetDatabaseCatalog (snd (thenM (map_assign db t p) (name_map_assign db n t) s)) db t = Inr p \<and>
   GetDatabaseCatalog_name (snd (thenM (map_assign db t p) (name_map_assign db n t) s)) db n
     = Inr p"
  by (simp add: M_defs map_assign_def name_map_assign_def GetDatabaseCatalog_def
      GetDatabaseCatalog_name_def at_def)

text \<open>
  Claim C9. The registry invariant (every table identifier in the id-to-relation map of
  a database has exactly one name in the name map of that database) holds after the
  constructor's bootstrap and is preserved by \<open>CreateDatabase\<close> and by \<open>DeleteDatabase\<close>,
  whatever their outcome; and a relation assigned into both maps is returned by the lookup
  by identifier and by the lookup by name at once.
\<close>

theorem registry_consistency:
  "(defs_ok defs \<longrightarrow> registry_inv (snd (Catalog defs))) \<and>
   (registry_inv s \<longrightarrow> registry_inv (snd (CreateDatabase defs name s))) \<and>
   (registry_inv s \<longrightarrow> registry_inv (snd (DeleteDatabase name s))) \<and>
   GetDatabaseCatalog (snd (thenM (map_assign db t p) (name_map_assign db n t) s)) db t = Inr p \<and>
   GetDatabaseCatalog_name (snd (thenM (map_assign db t p) (name_map_assign db n t) s)) db n
     = Inr p"
  using registry_inv_boot registry_inv_create registry_inv_delete register_visible
  by blast

theorem registry_consistency_witness:
  "defs_ok example_defs \<and>
   registry_inv (snd (Catalog example_defs)) \<and>
   registry_inv (snd (CreateDatabase example_defs ''foo'' (snd (Catalog example_defs)))) \<and>
   registry_inv (snd (DeleteDatabase ''terrier'' (snd (Catalog example_defs)))) \<and>
   GetDatabaseCatalog_name
     (snd (thenM (map_assign 1 2000 9) (name_map_assign 1 ''t'' 2000) (snd (Catalog example_defs))))
     1 ''t'' = Inr 9"
  using registry_consistency [of example_defs "snd (Catalog example_defs)" "''foo''" 1 2000 9 "''t''"]
    registry_consistency [of example_defs "snd (Catalog example_defs)" "''terrier''" 1 2000 9 "''t''"]
    example_ok
  by simp

subsection \<open>Rows after bootstrap\<close>

lemmas handle_defs = GetNamespaceHandle_def GetClassHandle_def GetTablespaceHandle_def
  NameToOid_def GetEntry_def entry_oid_of_def deref_def GetDatabaseCatalog_name_def
  GetDatabaseCatalog_def at_def

text \<open>
  Claim C2, as amended. Where the reserved columns have defaults and the allocation does not
  wrap, the constructor's bootstrap succeeds and leaves in the default database:
  \<open>pg_tablespace\<close> with exactly two rows, \<open>pg_global\<close> before \<open>pg_default\<close>;
  \<open>pg_namespace\<close> with the rows \<open>pg_catalog\<close> and \<open>public\<close>; and \<open>pg_class\<close> with
  exactly five rows, for \<open>pg_database\<close>, \<open>pg_tablespace\<close>, \<open>pg_namespace\<close>, \<open>pg_class\<close> and
  \<open>pg_attribute\<close> in this order, each carrying the identifier of the \<open>pg_catalog\<close> row of
  \<open>pg_namespace\<close> and the identifier of a row of \<open>pg_tablespace\<close> (\<open>pg_global\<close> for the
  first two, \<open>pg_default\<close> for the others), as the lookups by name return them.
\<close>

theorem Bootstrap_rows:
  assumes "defs_ok defs"
  shows "fst (Catalog defs) = Inr () \<and>
    table_rows (snd (Catalog defs)) (DEFAULT_DATABASE_OID defs) ''pg_tablespace'' =
      Some [[IntegerValue (pg_global_oid defs), VarcharValue ''pg_global''] @
            map default_of (pg_tablespace_unused_cols defs),
            [IntegerValue (pg_default_oid defs), VarcharValue ''pg_default''] @
            map default_of (pg_tablespace_unused_cols defs)] \<and>
    table_rows (snd (Catalog defs)) (DEFAULT_DATABASE_OID defs) ''pg_namespace'' =
      Some [[IntegerValue (pg_catalog_oid defs), VarcharValue ''pg_catalog''] @
            map default_of (NamespaceHandle_unused_schema_cols defs),
            [IntegerValue (public_oid defs), VarcharValue ''public''] @
            map default_of (NamespaceHandle_unused_schema_cols defs)] \<and>
    table_rows (snd (Catalog defs)) (DEFAULT_DATABASE_OID defs) ''pg_class'' =
      Some [class_row defs 1 (pg_database_oid defs) ''pg_database''
              (pg_catalog_oid defs) (pg_global_oid defs),
            class_row defs 2 (pg_tablespace_oid defs) ''pg_tablespace''
              (pg_catalog_oid defs) (pg_global_oid defs),
            class_row defs 4 (pg_namespace_oid defs) ''pg_namespace''
              (pg_catalog_oid defs) (pg_default_oid defs),
            class_row defs 5 (pg_class_oid defs) ''pg_class''
              (pg_catalog_oid defs) (pg_default_oid defs),
            class_row defs 3 (pg_attribute_oid defs) ''pg_attribute''
              (pg_catalog_oid defs) (pg_default_oid defs)] \<and>
    fst (bindM (GetNamespaceHandle (DEFAULT_DATABASE_OID defs))
           (\<lambda>ns_handle. NameToOid ns_handle ''pg_catalog'') (snd (Catalog defs))) =
      Inr (pg_catalog_oid defs) \<and>
    fst (bindM (GetEntry (GetTablespaceHandle (snd (Catalog defs))) ''pg_global'') entry_oid_of
           (snd (Catalog defs))) = Inr (pg_global_oid defs) \<and>
    fst (bindM (GetEntry (GetTablespaceHandle (snd (Catalog defs))) ''pg_default'') entry_oid_of
           (snd (Catalog defs))) = Inr (pg_default_oid defs)"
proof -
  obtain s c_ts c_ns c_class where b: "Catalog defs = (Inr (), s)"
    "distinct [pg_database_oid defs, pg_tablespace_oid defs, pg_attribute_oid defs,
       pg_namespace_oid defs, pg_class_oid defs, pg_attrdef_oid defs, oid_' s]"
    "map_' s = [DEFAULT_DATABASE_OID defs \<mapsto>
       [pg_database_oid defs \<mapsto> 1, pg_tablespace_oid defs \<mapsto> 2, pg_attribute_oid defs \<mapsto> 3,
        pg_namespace_oid defs \<mapsto> 4, pg_class_oid defs \<mapsto> 5, pg_attrdef_oid defs \<mapsto> 6]]"
    "name_map_' s = [DEFAULT_DATABASE_OID defs \<mapsto>
       [''pg_database'' \<mapsto> pg_database_oid defs, ''pg_tablespace'' \<mapsto> pg_tablespace_oid defs,
        ''pg_attribute'' \<mapsto> pg_attribute_oid defs, ''pg_namespace'' \<mapsto> pg_namespace_oid defs,
        ''pg_class'' \<mapsto> pg_class_oid defs, ''pg_attrdef'' \<mapsto> pg_attrdef_oid defs]]"
    "pg_tablespace_' s = 2"
    "heap s 2 = Some \<lparr>t_oid = pg_tablespace_oid defs, t_columns = c_ts, t_created = True,
       t_rows = [[IntegerValue (pg_global_oid defs), VarcharValue ''pg_global''] @
                 map default_of (pg_tablespace_unused_cols defs),
                 [IntegerValue (pg_default_oid defs), VarcharValue ''pg_default''] @
                 map default_of (pg_tablespace_unused_cols defs)]\<rparr>"
    "heap s 4 = Some \<lparr>t_oid = pg_namespace_oid defs, t_columns = c_ns, t_created = True,
       t_rows = [[IntegerValue (pg_catalog_oid defs), VarcharValue ''pg_catalog''] @
                 map default_of (NamespaceHandle_unused_schema_cols defs),
                 [IntegerValue (public_oid defs), VarcharValue ''public''] @
                 map default_of (NamespaceHandle_unused_schema_cols defs)]\<rparr>"
    "heap s 5 = Some \<lparr>t_oid = pg_class_oid defs, t_columns = c_class, t_created = True,
       t_rows = [class_row defs 1 (pg_database_oid defs) ''pg_database''
                   (pg_catalog_oid defs) (pg_global_oid defs),
                 class_row defs 2 (pg_tablespace_oid defs) ''pg_tablespace''
                   (pg_catalog_oid defs) (pg_global_oid defs),
                 class_row defs 4 (pg_namespace_oid defs) ''pg_namespace''
                   (pg_catalog_oid defs) (pg_default_oid defs),
                 class_row defs 5 (pg_class_oid defs) ''pg_class''
                   (pg_catalog_oid defs) (pg_default_oid defs),
                 class_row defs 3 (pg_attribute_oid defs) ''pg_attribute''
                   (pg_catalog_oid defs) (pg_default_oid defs)]\<rparr>"
    by (rule Catalog_booted [OF assms])
  from b(2) have ne: "pg_tablespace_oid defs \<noteq> pg_attribute_oid defs"
    "pg_tablespace_oid defs \<noteq> pg_namespace_oid defs" "pg_tablespace_oid defs \<noteq> pg_class_oid defs"
    "pg_tablespace_oid defs \<noteq> pg_attrdef_oid defs" "pg_namespace_oid defs \<noteq> pg_class_oid defs"
    "pg_namespace_oid defs \<noteq> pg_attrdef_oid defs" "pg_class_oid defs \<noteq> pg_attrdef_oid defs"
    by simp_all
  show ?thesis
    using ne by (simp add: b(1,3-) table_rows_def M_defs handle_defs)
qed

theorem Bootstrap_rows_witness:
  "defs_ok example_defs \<and> fst (Catalog example_defs) = Inr () \<and>
   table_rows (snd (Catalog example_defs)) 1 ''pg_tablespace'' =
     Some [[IntegerValue 1012, VarcharValue ''pg_global'', IntegerValue 0, NullValue VARCHAR],
           [IntegerValue 1013, VarcharValue ''pg_default'', IntegerValue 0, NullValue VARCHAR]] \<and>
   table_rows (snd (Catalog example_defs)) 1 ''pg_namespace'' =
     Some [[IntegerValue 1024, VarcharValue ''pg_catalog''],
           [IntegerValue 1025, VarcharValue ''public'']] \<and>
   table_rows (snd (Catalog example_defs)) 1 ''pg_class'' =
     Some [[BigIntValue 1, IntegerValue 1001, VarcharValue ''pg_database'',
            IntegerValue 1024, IntegerValue 1012],
           [BigIntValue 2, IntegerValue 1007, VarcharValue ''pg_tablespace'',
            IntegerValue 1024, IntegerValue 1012],
           [BigIntValue 4, IntegerValue 1021, VarcharValue ''pg_namespace'',
            IntegerValue 1024, IntegerValue 1013],
           [BigIntValue 5, IntegerValue 1026, VarcharValue ''pg_class'',
            IntegerValue 1024, IntegerValue 1013],
           [BigIntValue 3, IntegerValue 1014, VarcharValue ''pg_attribute'',
            IntegerValue 1024, IntegerValue 1013]]"
proof -
  have d: "map default_of (pg_tablespace_unused_cols example_defs) = [IntegerValue 0, NullValue VARCHAR]"
    "map default_of (NamespaceHandle_unused_schema_cols example_defs) = []"
    "map default_of (ClassHandle_unused_schema_cols example_defs) = []"
    by (simp_all add: example_defs_def default_of_def)
  show ?thesis
    using Bootstrap_rows [OF example_ok] example_ok
    by (simp add: example_oids d class_row_def)
qed

text \<open>
  The claim as stated, exactly four rows in \<open>pg_class\<close>, fails: \<^verbatim>\<open>CreatePGClass\<close> adds a
  fifth entry, for \<open>pg_attribute\<close>.
\<close>

theorem Bootstrap_rows_counterexample:
  "fst (Catalog example_defs) = Inr () \<and>
   map_option (map (\<lambda>row. row ! 2)) (table_rows (snd (Catalog example_defs)) 1 ''pg_class'') =
     Some [VarcharValue ''pg_database'', VarcharValue ''pg_tablespace'',
           VarcharValue ''pg_namespace'', VarcharValue ''pg_class'', VarcharValue ''pg_attribute'']"
proof -
  obtain s c_class where b: "Catalog example_defs = (Inr (), s)"
    "map_' s = [1 \<mapsto> [1001 \<mapsto> 1, 1007 \<mapsto> 2, 1014 \<mapsto> 3, 1021 \<mapsto> 4, 1026 \<mapsto> 5, 1032 \<mapsto> 6]]"
    "name_map_' s = [1 \<mapsto>
       [''pg_database'' \<mapsto> 1001, ''pg_tablespace'' \<mapsto> 1007, ''pg_attribute'' \<mapsto> 1014,
        ''pg_namespace'' \<mapsto> 1021, ''pg_class'' \<mapsto> 1026, ''pg_attrdef'' \<mapsto> 1032]]"
    "heap s 5 = Some \<lparr>t_oid = 1026, t_columns = c_class, t_created = True,
       t_rows = [[BigIntValue 1, IntegerValue 1001, VarcharValue ''pg_database'',
                  IntegerValue 1024, IntegerValue 1012],
                 [BigIntValue 2, IntegerValue 1007, VarcharValue ''pg_tablespace'',
                  IntegerValue 1024, IntegerValue 1012],
                 [BigIntValue 4, IntegerValue 1021, VarcharValue ''pg_namespace'',
                  IntegerValue 1024, IntegerValue 1013],
                 [BigIntValue 5, IntegerValue 1026, VarcharValue ''pg_class'',
                  IntegerValue 1024, IntegerValue 1013],
                 [BigIntValue 3, IntegerValue 1014, VarcharValue ''pg_attribute'',
                  IntegerValue 1024, IntegerValue 1013]]\<rparr>"
    by (rule example_booted)
  then show ?thesis
    by (simp add: table_rows_def handle_defs)
qed

subsection \<open>The type relation\<close>

lemmas type_defs = CreatePGType_def type_row_def

text \<open>
  Claim C8, as amended. \<^verbatim>\<open>BootstrapDatabase\<close> does not call \<^verbatim>\<open>CreatePGType\<close>: after the
  constructor's bootstrap the registry of the default database knows no relation
  \<open>pg_type\<close>. \<^verbatim>\<open>CreatePGType\<close>, run on the bootstrapped database, succeeds and leaves the
  relation \<open>pg_type\<close> with exactly nine rows, for boolean, tinyint, smallint, integer, date,
  bigint, decimal, timestamp and varchar in this order, each carrying the identifier of the
  \<open>pg_catalog\<close> namespace, the size of the type (\<open>-1\<close> for varchar) and the category \<open>b\<close>.
\<close>

theorem CreatePGType_rows:
  assumes "defs_ok defs"
  shows "fst (Catalog defs) = Inr () \<and>
    GetDatabaseCatalog_name (snd (Catalog defs)) (DEFAULT_DATABASE_OID defs) ''pg_type'' =
      Inl OutOfRange \<and>
    (\<exists>s' o1 o2 o3 o4 o5 o6 o7 o8 o9.
       CreatePGType defs (DEFAULT_DATABASE_OID defs) (snd (Catalog defs)) = (Inr (), s') \<and>
       table_rows s' (DEFAULT_DATABASE_OID defs) ''pg_type'' =
         Some [[IntegerValue o1, VarcharValue ''boolean'', IntegerValue (pg_catalog_oid defs),
                IntegerValue (GetTypeSize defs BOOLEAN), VarcharValue ''b''],
               [IntegerValue o2, VarcharValue ''tinyint'', IntegerValue (pg_catalog_oid defs),
                IntegerValue (GetTypeSize defs TINYINT), VarcharValue ''b''],
               [IntegerValue o3, VarcharValue ''smallint'', IntegerValue (pg_catalog_oid defs),
                IntegerValue (GetTypeSize defs SMALLINT), VarcharValue ''b''],
               [IntegerValue o4, VarcharValue ''integer'', IntegerValue (pg_catalog_oid defs),
                IntegerValue (GetTypeSize defs INTEGER), VarcharValue ''b''],
               [IntegerValue o5, VarcharValue ''date'', IntegerValue (pg_catalog_oid defs),
                IntegerValue (GetTypeSize defs DATE), VarcharValue ''b''],
               [IntegerValue o6, VarcharValue ''bigint'', IntegerValue (pg_catalog_oid defs),
                IntegerValue (GetTypeSize defs BIGINT), VarcharValue ''b''],
               [IntegerValue o7, VarcharValue ''decimal'', IntegerValue (pg_catalog_oid defs),
                IntegerValue (GetTypeSize defs DECIMAL), VarcharValue ''b''],
               [IntegerValue o8, VarcharValue ''timestamp'', IntegerValue (pg_catalog_oid defs),
                IntegerValue (GetTypeSize defs TIMESTAMP), VarcharValue ''b''],
               [IntegerValue o9, VarcharValue ''varchar'', IntegerValue (pg_catalog_oid defs),
                IntegerValue (- 1), VarcharValue ''b'']])"
proof -
  obtain s c_ns where b: "Catalog defs = (Inr (), s)"
    "distinct [pg_database_oid defs, pg_tablespace_oid defs, pg_attribute_oid defs,
       pg_namespace_oid defs, pg_class_oid defs, pg_attrdef_oid defs, oid_' s]"
    "map_' s = [DEFAULT_DATABASE_OID defs \<mapsto>
       [pg_database_oid defs \<mapsto> 1, pg_tablespace_oid defs \<mapsto> 2, pg_attribute_oid defs \<mapsto> 3,
        pg_namespace_oid defs \<mapsto> 4, pg_class_oid defs \<mapsto> 5, pg_attrdef_oid defs \<mapsto> 6]]"
    "name_map_' s = [DEFAULT_DATABASE_OID defs \<mapsto>
       [''pg_database'' \<mapsto> pg_database_oid defs, ''pg_tablespace'' \<mapsto> pg_tablespace_oid defs,
        ''pg_attribute'' \<mapsto> pg_attribute_oid defs, ''pg_namespace'' \<mapsto> pg_namespace_oid defs,
        ''pg_class'' \<mapsto> pg_class_oid defs, ''pg_attrdef'' \<mapsto> pg_attrdef_oid defs]]"
    "next_addr s = 7"
    "heap s 4 = Some \<lparr>t_oid = pg_namespace_oid defs, t_columns = c_ns, t_created = True,
       t_rows = [[IntegerValue (pg_catalog_oid defs), VarcharValue ''pg_catalog''] @
                 map default_of (NamespaceHandle_unused_schema_cols defs),
                 [IntegerValue (public_oid defs), VarcharValue ''public''] @
                 map default_of (NamespaceHandle_unused_schema_cols defs)]\<rparr>"
    by (rule Catalog_booted [OF assms])
  from b(2) have ne: "pg_namespace_oid defs \<noteq> pg_class_oid defs"
    "pg_namespace_oid defs \<noteq> pg_attrdef_oid defs" "pg_namespace_oid defs \<noteq> oid_' s"
    by simp_all
  have absent: "GetDatabaseCatalog_name s (DEFAULT_DATABASE_OID defs) ''pg_type'' = Inl OutOfRange"
    by (simp add: b(3,4) handle_defs)
  have run: "\<exists>s' o1 o2 o3 o4 o5 o6 o7 o8 o9.
       CreatePGType defs (DEFAULT_DATABASE_OID defs) s = (Inr (), s') \<and>
       table_rows s' (DEFAULT_DATABASE_OID defs) ''pg_type'' =
         Some [[IntegerValue o1, VarcharValue ''boolean'', IntegerValue (pg_catalog_oid defs),
                IntegerValue (GetTypeSize defs BOOLEAN), VarcharValue ''b''],
               [IntegerValue o2, VarcharValue ''tinyint'', IntegerValue (pg_catalog_oid defs),
                IntegerValue (GetTypeSize defs TINYINT), VarcharValue ''b''],
               [IntegerValue o3, VarcharValue ''smallint'', IntegerValue (pg_catalog_oid defs),
                IntegerValue (GetTypeSize defs SMALLINT), VarcharValue ''b''],
               [IntegerValue o4, VarcharValue ''integer'', IntegerValue (pg_catalog_oid defs),
                IntegerValue (GetTypeSize defs INTEGER), VarcharValue ''b''],
               [IntegerValue o5, VarcharValue ''date'', IntegerValue (pg_catalog_oid defs),
                IntegerValue (GetTypeSize defs DATE), VarcharValue ''b''],
               [IntegerValue o6, VarcharValue ''bigint'', IntegerValue (pg_catalog_oid defs),
                IntegerValue (GetTypeSize defs BIGINT), VarcharValue ''b''],
               [IntegerValue o7, VarcharValue ''decimal'', IntegerValue (pg_catalog_oid defs),
                IntegerValue (GetTypeSize defs DECIMAL), VarcharValue ''b''],
               [IntegerValue o8, VarcharValue ''timestamp'', IntegerValue (pg_catalog_oid defs),
                IntegerValue (GetTypeSize defs TIMESTAMP), VarcharValue ''b''],
               [IntegerValue o9, VarcharValue ''varchar'', IntegerValue (pg_catalog_oid defs),
                IntegerValue (- 1), VarcharValue ''b'']]"
    using ne
    by (simp add: type_defs M_defs prim_defs AddUnusedSchemaColumns_eval' b(3-) table_rows_def
        GetNamespaceHandle_def)
  show ?thesis
    using absent run by (simp add: b(1))
qed

theorem CreatePGType_rows_witness:
  "defs_ok example_defs \<and>
   GetDatabaseCatalog_name (snd (Catalog example_defs)) 1 ''pg_type'' = Inl OutOfRange \<and>
   fst (CreatePGType example_defs 1 (snd (Catalog example_defs))) = Inr () \<and>
   map_option (map (\<lambda>row. (row ! 1, row ! 2, row ! 3)))
     (table_rows (snd (CreatePGType example_defs 1 (snd (Catalog example_defs)))) 1 ''pg_type'') =
     Some [(VarcharValue ''boolean'', IntegerValue 1024, IntegerValue 1),
           (VarcharValue ''tinyint'', IntegerValue 1024, IntegerValue 1),
           (VarcharValue ''smallint'', IntegerValue 1024, IntegerValue 2),
           (VarcharValue ''integer'', IntegerValue 1024, IntegerValue 4),
           (VarcharValue ''date'', IntegerValue 1024, IntegerValue 4),
           (VarcharValue ''bigint'', IntegerValue 1024, IntegerValue 8),
           (VarcharValue ''decimal'', IntegerValue 1024, IntegerValue 8),
           (VarcharValue ''timestamp'', IntegerValue 1024, IntegerValue 8),
           (VarcharValue ''varchar'', IntegerValue 1024, IntegerValue (- 1))]"
proof -
  have g: "GetTypeSize example_defs BOOLEAN = 1" "GetTypeSize example_defs TINYINT = 1"
    "GetTypeSize example_defs SMALLINT = 2" "GetTypeSize example_defs INTEGER = 4"
    "GetTypeSize example_defs DATE = 4" "GetTypeSize example_defs BIGINT = 8"
    "GetTypeSize example_defs DECIMAL = 8" "GetTypeSize example_defs TIMESTAMP = 8"
    by (simp_all add: example_defs_def)
  from CreatePGType_rows [OF example_ok] example_ok show ?thesis
    by (auto simp add: example_oids g)
qed

text \<open>
  The claim as stated, that after bootstrap the relation \<open>pg_type\<close> exists, fails: the
  bootstrapped default database has six relations and \<open>pg_type\<close> is not among them.
\<close>

theorem CreatePGType_counterexample:
  "fst (Catalog example_defs) = Inr () \<and>
   table_rows (snd (Catalog example_defs)) 1 ''pg_type'' = None \<and>
   map_option dom (name_map_' (snd (Catalog example_defs)) 1) =
     Some {''pg_database'', ''pg_tablespace'', ''pg_attribute'', ''pg_namespace'', ''pg_class'',
           ''pg_attrdef''}"
proof -
  obtain s where b: "Catalog example_defs = (Inr (), s)"
    "map_' s = [1 \<mapsto> [1001 \<mapsto> 1, 1007 \<mapsto> 2, 1014 \<mapsto> 3, 1021 \<mapsto> 4, 1026 \<mapsto> 5, 1032 \<mapsto> 6]]"
    "name_map_' s = [1 \<mapsto>
       [''pg_database'' \<mapsto> 1001, ''pg_tablespace'' \<mapsto> 1007, ''pg_attribute'' \<mapsto> 1014,
        ''pg_namespace'' \<mapsto> 1021, ''pg_class'' \<mapsto> 1026, ''pg_attrdef'' \<mapsto> 1032]]"
    by (rule example_booted)
  then show ?thesis
    by (auto simp add: table_rows_def handle_defs)
qed

subsection \<open>Reclamation on database drop\<close>

lemma DestroyDB_row_frame:
  assumes "DestroyDB_row cat row s = (r, s')"
  shows "s' = s \<or>
    (\<exists>p. user_ptr cat row = Some p \<and> p \<noteq> 0 \<and> heap s p \<noteq> None \<and> r = Inr () \<and>
       s' = s\<lparr>heap := (heap s)(p := None), deleted := deleted s @ [p]\<rparr>)"
  using assms
  by (auto simp: DestroyDB_row_def M_defs cell_uint32_def cell_int64_def delete_SqlTableRW_def
      user_ptr_def split: if_splits Value.splits option.splits)

lemma restrict_after_delete:
  "((h :: addr \<rightharpoonup> SqlTableRW)(p := None)) |` (- A) = h |` (- insert p A)"
  by (rule ext) (simp add: restrict_map_def)

lemma forM_DestroyDB_row_frame:
  assumes "forM rows (DestroyDB_row cat) s = (r, s')"
  shows "\<exists>ptrs. s' = s\<lparr>heap := heap s |` (- set ptrs), deleted := deleted s @ ptrs\<rparr> \<and>
           set ptrs \<subseteq> {p. \<exists>row \<in> set rows. user_ptr cat row = Some p}"
  using assms
proof (induction rows arbitrary: s)
  case Nil
  then have "s' = s" by (simp add: M_defs)
  then show ?case by (intro exI [of _ "[]"]) simp
next
  case (Cons row rows)
  obtain r1 s1 where one: "DestroyDB_row cat row s = (r1, s1)" by fastforce
  show ?case
  proof (cases r1)
    case (Inl e)
    with Cons.prems one have s': "s' = s1" by (simp add: forM_Cons_run del: forM.simps)
    from DestroyDB_row_frame [OF one] Inl have "s1 = s" by auto
    with s' show ?thesis by (intro exI [of _ "[]"]) simp
  next
    case (Inr u)
    with Cons.prems one have rest: "forM rows (DestroyDB_row cat) s1 = (r, s')"
      by (simp add: forM_Cons_run del: forM.simps)
    from Cons.IH [OF rest] obtain ptrs where
      p: "s' = s1\<lparr>heap := heap s1 |` (- set ptrs), deleted := deleted s1 @ ptrs\<rparr>"
         "set ptrs \<subseteq> {p. \<exists>row \<in> set rows. user_ptr cat row = Some p}"
      by blast
    from DestroyDB_row_frame [OF one] show ?thesis
    proof
      assume "s1 = s"
      with p show ?thesis by (intro exI [of _ ptrs]) auto
    next
      assume "\<exists>p. user_ptr cat row = Some p \<and> p \<noteq> 0 \<and> heap s p \<noteq> None \<and> r1 = Inr () \<and>
         s1 = s\<lparr>heap := (heap s)(p := None), deleted := deleted s @ [p]\<rparr>"
      then obtain q where q: "user_ptr cat row = Some q"
        "s1 = s\<lparr>heap := (heap s)(q := None), deleted := deleted s @ [q]\<rparr>"
        by blast
      have "s' = s\<lparr>heap := heap s |` (- set (q # ptrs)), deleted := deleted s @ q # ptrs\<rparr>"
        by (simp add: p(1) q(2) restrict_after_delete del: restrict_fun_upd Compl_insert)
      moreover have "set (q # ptrs) \<subseteq> {p. \<exists>row \<in> set (row # rows). user_ptr cat row = Some p}"
        using p(2) q(1) by auto
      ultimately show ?thesis by blast
    qed
  qed
qed

lemma DestroyDB_cases:
  "(\<exists>e. DestroyDB oid s = (Inl e, s\<lparr>begun := begun s + 1\<rparr>)) \<or>
   (\<exists>p t cat. GetDatabaseCatalog_name s oid ''pg_class'' = Inr p \<and> heap s p = Some t \<and>
      fst (bindM (GetNamespaceHandle oid) (\<lambda>h. NameToOid h ''pg_catalog'') s) = Inr cat \<and>
      DestroyDB oid s = forM (Scan 100 t) (DestroyDB_row cat) (s\<lparr>begun := begun s + 1\<rparr>))"
  by (simp add: DestroyDB_def M_defs BeginTransaction_def handle_defs
      split: sum.splits option.splits)

lemma restrict_nothing [simp]: "(h :: addr \<rightharpoonup> SqlTableRW) |` UNIV = h"
  by (rule ext) simp

text \<open>
  Claim C10. Whatever its outcome, \<open>DestroyDB\<close> changes the state in three places only:
  one more transaction has begun, the objects at some addresses \<open>ptrs\<close> are destroyed, and
  these addresses are recorded as deleted in this order. Each of the addresses is the one
  encoded in a scanned row of \<open>pg_class\<close> whose namespace differs from \<open>pg_catalog\<close>. So the
  id map and the name map of the registry, the committed transactions (the one begun here is
  not among them) and the rows of every relation that is not destroyed, those of \<open>pg_class\<close>
  included, are as before.
\<close>

theorem DestroyDB_frame:
  "\<exists>ptrs. snd (DestroyDB oid s) =
       s\<lparr>begun := Suc (begun s), heap := heap s |` (- set ptrs), deleted := deleted s @ ptrs\<rparr> \<and>
     (\<forall>p \<in> set ptrs. \<exists>rows cat row.
        table_rows s oid ''pg_class'' = Some rows \<and>
        fst (bindM (GetNamespaceHandle oid) (\<lambda>h. NameToOid h ''pg_catalog'') s) = Inr cat \<and>
        row \<in> set (take 100 rows) \<and> user_ptr cat row = Some p)"
  using DestroyDB_cases [of oid s]
proof (elim disjE exE conjE)
  fix e assume "DestroyDB oid s = (Inl e, s\<lparr>begun := begun s + 1\<rparr>)"
  then show ?thesis by (intro exI [of _ "[]"]) simp
next
  fix p t cat
  assume a: "GetDatabaseCatalog_name s oid ''pg_class'' = Inr p" "heap s p = Some t"
    "fst (bindM (GetNamespaceHandle oid) (\<lambda>h. NameToOid h ''pg_catalog'') s) = Inr cat"
    "DestroyDB oid s = forM (Scan 100 t) (DestroyDB_row cat) (s\<lparr>begun := begun s + 1\<rparr>)"
  obtain r s' where run: "forM (Scan 100 t) (DestroyDB_row cat) (s\<lparr>begun := begun s + 1\<rparr>) = (r, s')"
    by fastforce
  from forM_DestroyDB_row_frame [OF run] obtain ptrs where
    p: "s' = s\<lparr>begun := begun s + 1\<rparr>\<lparr>heap := heap (s\<lparr>begun := begun s + 1\<rparr>) |` (- set ptrs),
               deleted := deleted (s\<lparr>begun := begun s + 1\<rparr>) @ ptrs\<rparr>"
       "set ptrs \<subseteq> {p. \<exists>row \<in> set (Scan 100 t). user_ptr cat row = Some p}"
    by blast
  have rows: "table_rows s oid ''pg_class'' = Some (t_rows t)"
    by (simp add: table_rows_def a(1,2))
  show ?thesis
  proof (intro exI [of _ ptrs] conjI ballI)
    show "snd (DestroyDB oid s) =
       s\<lparr>begun := Suc (begun s), heap := heap s |` (- set ptrs), deleted := deleted s @ ptrs\<rparr>"
      using run p(1) by (simp add: a(4))
  next
    fix q assume "q \<in> set ptrs"
    with p(2) obtain row where "row \<in> set (Scan 100 t)" "user_ptr cat row = Some q" by blast
    then show "\<exists>rows cat row.
        table_rows s oid ''pg_class'' = Some rows \<and>
        fst (bindM (GetNamespaceHandle oid) (\<lambda>h. NameToOid h ''pg_catalog'') s) = Inr cat \<and>
        row \<in> set (take 100 rows) \<and> user_ptr cat row = Some q"
      using rows a(3) by (auto simp: Scan_def)
  qed
qed

theorem DestroyDB_frame_witness:
  "fst (Catalog example_defs) = Inr () \<and>
   snd (DestroyDB 1 (snd (Catalog example_defs))) = (snd (Catalog example_defs))\<lparr>begun := 2\<rparr> \<and>
   committed (snd (DestroyDB 1 (snd (Catalog example_defs)))) = [0]"
proof -
  obtain s c_ns c_class where b: "Catalog example_defs = (Inr (), s)"
    "map_' s = [1 \<mapsto> [1001 \<mapsto> 1, 1007 \<mapsto> 2, 1014 \<mapsto> 3, 1021 \<mapsto> 4, 1026 \<mapsto> 5, 1032 \<mapsto> 6]]"
    "name_map_' s = [1 \<mapsto>
       [''pg_database'' \<mapsto> 1001, ''pg_tablespace'' \<mapsto> 1007, ''pg_attribute'' \<mapsto> 1014,
        ''pg_namespace'' \<mapsto> 1021, ''pg_class'' \<mapsto> 1026, ''pg_attrdef'' \<mapsto> 1032]]"
    "deleted s = []" "begun s = 1" "committed s = [0]"
    "heap s 4 = Some \<lparr>t_oid = 1021, t_columns = c_ns, t_created = True,
       t_rows = [[IntegerValue 1024, VarcharValue ''pg_catalog''],
                 [IntegerValue 1025, VarcharValue ''public'']]\<rparr>"
    "heap s 5 = Some \<lparr>t_oid = 1026, t_columns = c_class, t_created = True,
       t_rows = [[BigIntValue 1, IntegerValue 1001, VarcharValue ''pg_database'',
                  IntegerValue 1024, IntegerValue 1012],
                 [BigIntValue 2, IntegerValue 1007, VarcharValue ''pg_tablespace'',
                  IntegerValue 1024, IntegerValue 1012],
                 [BigIntValue 4, IntegerValue 1021, VarcharValue ''pg_namespace'',
                  IntegerValue 1024, IntegerValue 1013],
                 [BigIntValue 5, IntegerValue 1026, VarcharValue ''pg_class'',
                  IntegerValue 1024, IntegerValue 1013],
                 [BigIntValue 3, IntegerValue 1014, VarcharValue ''pg_attribute'',
                  IntegerValue 1024, IntegerValue 1013]]\<rparr>"
    by (rule example_booted)
  from DestroyDB_frame [of 1 s] obtain ptrs where
    p: "snd (DestroyDB 1 s) =
       s\<lparr>begun := Suc (begun s), heap := heap s |` (- set ptrs), deleted := deleted s @ ptrs\<rparr>"
      "\<forall>p \<in> set ptrs. \<exists>rows cat row.
        table_rows s 1 ''pg_class'' = Some rows \<and>
        fst (bindM (GetNamespaceHandle 1) (\<lambda>h. NameToOid h ''pg_catalog'') s) = Inr cat \<and>
        row \<in> set (take 100 rows) \<and> user_ptr cat row = Some p"
    by blast
  have "q \<notin> set ptrs" for q
  proof
    assume "q \<in> set ptrs"
    with p(2) obtain rows cat row where r: "table_rows s 1 ''pg_class'' = Some rows"
      "fst (bindM (GetNamespaceHandle 1) (\<lambda>h. NameToOid h ''pg_catalog'') s) = Inr cat"
      "row \<in> set (take 100 rows)" "user_ptr cat row = Some q"
      by blast
    from r(2) have cat: "cat = 1024"
      by (simp add: b(2-) handle_defs M_defs)
    from r(1,3) have "row ! 3 = IntegerValue 1024"
      by (auto simp add: b(2-) table_rows_def handle_defs)
    with r(4) cat show False
      by (simp add: user_ptr_def split: if_splits)
  qed
  then have "ptrs = []" by (cases ptrs) auto
  with p(1) show ?thesis
    by (simp add: b)
qed

lemma forM_append_run:
  "forM (xs @ ys) g s =
     (case forM xs g s of (Inl e, s1) \<Rightarrow> (Inl e, s1) | (Inr u, s1) \<Rightarrow> forM ys g s1)"
proof (induction xs arbitrary: s)
  case Nil
  show ?case by (simp add: M_defs)
next
  case (Cons x xs)
  show ?case
    by (simp add: forM_Cons_run Cons.IH del: forM.simps split: prod.splits sum.splits)
qed

lemma user_ptr_inj:
  assumes "i < 2 ^ 64 - 7" "j < 2 ^ 64 - 7"
  shows "((7 :: addr) + of_nat i = 7 + of_nat j) = (i = j)"
  using assms by (simp add: word_of_nat_eq_iff take_bit_nat_eq_self)

lemma user_ptr_nonzero:
  assumes "i < 2 ^ 64 - 7"
  shows "(7 :: addr) + of_nat i \<noteq> 0"
proof -
  have "(of_nat (7 + i) :: addr) \<noteq> of_nat 0"
    using assms unfolding word_of_nat_eq_iff by (simp add: take_bit_nat_eq_self)
  then show ?thesis by simp
qed

lemma DestroyDB_row_user:
  assumes "cat \<noteq> 1025" "i < 2 ^ 64 - 7" "heap s (7 + of_nat i) \<noteq> None"
  shows "DestroyDB_row cat (user_class_row i) s =
     (Inr (), s\<lparr>heap := (heap s)(7 + of_nat i := None), deleted := deleted s @ [7 + of_nat i]\<rparr>)"
  using assms user_ptr_nonzero [OF assms(2)]
  by (auto simp add: DestroyDB_row_def user_class_row_def M_defs cell_uint32_def cell_int64_def
      delete_SqlTableRW_def)

lemma forM_DestroyDB_row_user:
  assumes "cat \<noteq> 1025" "distinct ks"
    "\<forall>k \<in> set ks. k < 2 ^ 64 - 7 \<and> heap s (7 + of_nat k) \<noteq> None"
  shows "forM (map user_class_row ks) (DestroyDB_row cat) s =
     (Inr (), s\<lparr>heap := heap s |` (- (\<lambda>k. 7 + of_nat k) ` set ks),
                deleted := deleted s @ map (\<lambda>k. 7 + of_nat k) ks\<rparr>)"
  using assms(2,3)
proof (induction ks arbitrary: s)
  case Nil
  show ?case by (simp add: M_defs)
next
  case (Cons k ks)
  let ?s1 = "s\<lparr>heap := (heap s)(7 + of_nat k := None), deleted := deleted s @ [7 + of_nat k]\<rparr>"
  from Cons.prems have one: "DestroyDB_row cat (user_class_row k) s = (Inr (), ?s1)"
    by (intro DestroyDB_row_user assms(1)) simp_all
  have live: "\<forall>j \<in> set ks. j < 2 ^ 64 - 7 \<and> heap ?s1 (7 + of_nat j) \<noteq> None"
  proof
    fix j assume j: "j \<in> set ks"
    with Cons.prems have "j \<noteq> k" "j < 2 ^ 64 - 7" "k < 2 ^ 64 - 7" "heap s (7 + of_nat j) \<noteq> None"
      by auto
    then show "j < 2 ^ 64 - 7 \<and> heap ?s1 (7 + of_nat j) \<noteq> None"
      using user_ptr_inj [of j k] by simp
  qed
  from Cons.prems have d: "distinct ks" by simp
  have "forM (map user_class_row (k # ks)) (DestroyDB_row cat) s =
          forM (map user_class_row ks) (DestroyDB_row cat) ?s1"
    by (simp add: forM_Cons_run one del: forM.simps)
  also have "\<dots> = (Inr (), ?s1\<lparr>heap := heap ?s1 |` (- (\<lambda>k. 7 + of_nat k) ` set ks),
                deleted := deleted ?s1 @ map (\<lambda>k. 7 + of_nat k) ks\<rparr>)"
    by (rule Cons.IH [OF d live])
  also have "\<dots> = (Inr (), s\<lparr>heap := heap s |` (- (\<lambda>k. 7 + of_nat k) ` set (k # ks)),
                deleted := deleted s @ map (\<lambda>k. 7 + of_nat k) (k # ks)\<rparr>)"
    by (simp add: restrict_after_delete del: restrict_fun_upd Compl_insert)
  finally show ?case .
qed

text \<open>
  Claim C1 at the catalog \<open>crowded\<close>. Its \<open>pg_class\<close> has 106 rows; the last one is in
  namespace \<open>public\<close> (1025, where \<open>pg_catalog\<close> is 1024) and encodes the live object at
  address 107. \<open>DestroyDB\<close> succeeds and destroys the objects of the 95 user relations among
  the first 100 rows, each once and no relation of \<open>pg_catalog\<close>; the object at 107 is not
  destroyed.
\<close>

theorem DestroyDB_leak:
  "fst (bindM (GetNamespaceHandle 1) (\<lambda>h. NameToOid h ''pg_catalog'') crowded) = Inr 1024 \<and>
   map_option (\<lambda>rows. (length rows, rows ! 105 ! 0, rows ! 105 ! 3))
     (table_rows crowded 1 ''pg_class'') = Some (106, BigIntValue 107, IntegerValue 1025) \<and>
   map_option t_oid (heap crowded 107) = Some 1135 \<and>
   fst (DestroyDB 1 crowded) = Inr () \<and>
   deleted (snd (DestroyDB 1 crowded)) = map (\<lambda>k. 7 + of_nat k) [0..<95] \<and>
   107 \<notin> set (deleted (snd (DestroyDB 1 crowded))) \<and>
   map_option t_oid (heap (snd (DestroyDB 1 crowded)) 107) = Some 1135"
proof -
  obtain s c_ns c_class where b: "Catalog example_defs = (Inr (), s)"
    "map_' s = [1 \<mapsto> [1001 \<mapsto> 1, 1007 \<mapsto> 2, 1014 \<mapsto> 3, 1021 \<mapsto> 4, 1026 \<mapsto> 5, 1032 \<mapsto> 6]]"
    "name_map_' s = [1 \<mapsto>
       [''pg_database'' \<mapsto> 1001, ''pg_tablespace'' \<mapsto> 1007, ''pg_attribute'' \<mapsto> 1014,
        ''pg_namespace'' \<mapsto> 1021, ''pg_class'' \<mapsto> 1026, ''pg_attrdef'' \<mapsto> 1032]]"
    "deleted s = []" "begun s = 1" "committed s = [0]"
    "heap s 4 = Some \<lparr>t_oid = 1021, t_columns = c_ns, t_created = True,
       t_rows = [[IntegerValue 1024, VarcharValue ''pg_catalog''],
                 [IntegerValue 1025, VarcharValue ''public'']]\<rparr>"
    "heap s 5 = Some \<lparr>t_oid = 1026, t_columns = c_class, t_created = True,
       t_rows = [[BigIntValue 1, IntegerValue 1001, VarcharValue ''pg_database'',
                  IntegerValue 1024, IntegerValue 1012],
                 [BigIntValue 2, IntegerValue 1007, VarcharValue ''pg_tablespace'',
                  IntegerValue 1024, IntegerValue 1012],
                 [BigIntValue 4, IntegerValue 1021, VarcharValue ''pg_namespace'',
                  IntegerValue 1024, IntegerValue 1013],
                 [BigIntValue 5, IntegerValue 1026, VarcharValue ''pg_class'',
                  IntegerValue 1024, IntegerValue 1013],
                 [BigIntValue 3, IntegerValue 1014, VarcharValue ''pg_attribute'',
                  IntegerValue 1024, IntegerValue 1013]]\<rparr>"
    by (rule example_booted)
  let ?five = "[[BigIntValue 1, IntegerValue 1001, VarcharValue ''pg_database'',
                  IntegerValue 1024, IntegerValue 1012],
                 [BigIntValue 2, IntegerValue 1007, VarcharValue ''pg_tablespace'',
                  IntegerValue 1024, IntegerValue 1012],
                 [BigIntValue 4, IntegerValue 1021, VarcharValue ''pg_namespace'',
                  IntegerValue 1024, IntegerValue 1013],
                 [BigIntValue 5, IntegerValue 1026, VarcharValue ''pg_class'',
                  IntegerValue 1024, IntegerValue 1013],
                 [BigIntValue 3, IntegerValue 1014, VarcharValue ''pg_attribute'',
                  IntegerValue 1024, IntegerValue 1013]]"
  have c: "crowded = with_user_tables 101 s" by (simp add: crowded_def b(1))
  have maps: "map_' crowded = map_' s" "name_map_' crowded = name_map_' s"
    "deleted crowded = []" "begun crowded = 1"
    by (simp_all add: c with_user_tables_def b(4,5))
  have h4: "heap crowded 4 = heap s 4"
    by (simp add: c with_user_tables_def)
  have h5: "heap crowded 5 = Some \<lparr>t_oid = 1026, t_columns = c_class, t_created = True,
       t_rows = ?five @ map user_class_row [0..<101]\<rparr>"
    by (simp add: c with_user_tables_def b(8) del: upt_rec_numeral)
  have hu: "heap crowded (7 + of_nat k) = Some (user_table k)" if "k < 101" for k
  proof -
    have u: "unat ((7 :: addr) + of_nat k) = 7 + k"
      using that by (simp add: unat_word_ariths unat_of_nat)
    have "(7 :: addr) + of_nat k \<noteq> 5"
    proof
      assume "(7 :: addr) + of_nat k = 5"
      then have "unat ((7 :: addr) + of_nat k) = unat (5 :: addr)" by (rule arg_cong)
      with u show False by simp
    qed
    then show ?thesis
      using that by (simp add: c with_user_tables_def u)
  qed
  have ns: "fst (bindM (GetNamespaceHandle 1) (\<lambda>h. NameToOid h ''pg_catalog'') crowded) = Inr 1024"
    by (simp add: maps b(2,3,7) h4 handle_defs M_defs)
  have rows: "table_rows crowded 1 ''pg_class'' = Some (?five @ map user_class_row [0..<101])"
    by (simp add: table_rows_def handle_defs maps b(2,3) h5 del: upt_rec_numeral)
  have last_row: "(?five @ map user_class_row [0..<101]) ! 105 = user_class_row 100"
    by (simp add: nth_append del: upt_rec_numeral)
  have h107: "heap crowded 107 = Some (user_table 100)"
    using hu [of 100] by simp
  let ?f = "\<lambda>k. (7 :: addr) + of_nat k"
  let ?s2 = "crowded\<lparr>begun := 2\<rparr>"
  have scan: "take 100 (?five @ map user_class_row [0..<101]) = ?five @ map user_class_row [0..<95]"
    by (simp add: take_map del: upt_rec_numeral)
  have "DestroyDB 1 crowded =
      forM (take 100 (?five @ map user_class_row [0..<101])) (DestroyDB_row 1024)
        (crowded\<lparr>begun := begun crowded + 1\<rparr>)"
    using ns
    by (simp add: DestroyDB_def M_defs BeginTransaction_def handle_defs maps(1-3) b(2,3,7) h4 h5
        Scan_def del: upt_rec_numeral forM.simps take_append take_Cons_numeral)
  moreover have "crowded\<lparr>begun := begun crowded + 1\<rparr> = ?s2"
    by (simp add: maps(4))
  ultimately have run: "DestroyDB 1 crowded =
      forM (?five @ map user_class_row [0..<95]) (DestroyDB_row 1024) ?s2"
    unfolding scan by simp
  have five: "forM ?five (DestroyDB_row 1024) ?s2 = (Inr (), ?s2)"
    by (simp add: DestroyDB_row_def M_defs cell_uint32_def)
  have live: "\<forall>k \<in> set [0..<95]. k < 2 ^ 64 - 7 \<and> heap ?s2 (7 + of_nat k) \<noteq> None"
    using hu by simp
  have users: "forM (map user_class_row [0..<95]) (DestroyDB_row 1024) ?s2 =
     (Inr (), ?s2\<lparr>heap := heap ?s2 |` (- ?f ` set [0..<95]),
                deleted := deleted ?s2 @ map ?f [0..<95]\<rparr>)"
    by (rule forM_DestroyDB_row_user [OF _ _ live]) simp_all
  have res: "DestroyDB 1 crowded =
     (Inr (), ?s2\<lparr>heap := heap ?s2 |` (- ?f ` set [0..<95]),
                deleted := deleted ?s2 @ map ?f [0..<95]\<rparr>)"
    by (simp only: run forM_append_run five users prod.case sum.case)
  have out: "(107 :: addr) \<notin> ?f ` set [0..<95]"
  proof
    assume "(107 :: addr) \<in> ?f ` set [0..<95]"
    then obtain k where k: "k < 95" "(107 :: addr) = 7 + of_nat k" by auto
    have "(7 :: addr) + of_nat 100 = 7 + of_nat k" using k(2) by simp
    with user_ptr_inj [of 100 k] k(1) show False by simp
  qed
  show ?thesis
    using out
    by (simp add: ns rows last_row h107 res maps user_class_row_def user_table_def
        del: upt_rec_numeral nth_append)
qed

end
